theory Spec2Isabelle
  imports Complex_Main
begin

section \<open>Keypoint frames and geometry\<close>

text \<open>
  A joint is a row \<open>(x, y, confidence)\<close> of the pose array; a frame is the array of rows, or
  \<open>None\<close> when no person was detected.  Python floats are idealised as reals.
\<close>

type_synonym joint = "real \<times> real \<times> real"
type_synonym keypoints = "joint list option"

definition jx :: "joint \<Rightarrow> real" where
  "jx j = fst j"

definition jy :: "joint \<Rightarrow> real" where
  "jy j = fst (snd j)"

definition jconf :: "joint \<Rightarrow> real" where
  "jconf j = snd (snd j)"

text \<open>\<open>collections.deque(maxlen=n).append\<close>: the oldest entry is dropped once the deque is full.\<close>

definition deque_append :: "nat \<Rightarrow> 'a list \<Rightarrow> 'a \<Rightarrow> 'a list" where
  "deque_append maxlen xs x = (let ys = xs @ [x] in drop (length ys - maxlen) ys)"

text \<open>The slice \<open>list(d)[-n:]\<close> for positive \<open>n\<close>.\<close>

definition lastn :: "nat \<Rightarrow> 'a list \<Rightarrow> 'a list" where
  "lastn n xs = drop (length xs - n) xs"

definition np_mean :: "real list \<Rightarrow> real" where
  "np_mean xs = sum_list xs / real (length xs)"

definition linalg_norm :: "real \<times> real \<Rightarrow> real" where
  "linalg_norm v = sqrt (fst v * fst v + snd v * snd v)"

definition np_dot :: "real \<times> real \<Rightarrow> real \<times> real \<Rightarrow> real" where
  "np_dot v w = fst v * fst w + snd v * snd w"

definition np_clip :: "real \<Rightarrow> real \<Rightarrow> real \<Rightarrow> real" where
  "np_clip x lo hi = min (max x lo) hi"

definition np_degrees :: "real \<Rightarrow> real" where
  "np_degrees r = r * 180 / pi"

definition epsilon :: real where
  "epsilon = 1 / 1000000"

text \<open>\<open>PushUpCounter.calculate_angle\<close> (and, line for line, \<open>SquatCounter.calculate_angle\<close>).\<close>

definition calculate_angle :: "joint \<Rightarrow> joint \<Rightarrow> joint \<Rightarrow> real option" where
  "calculate_angle a b c =
     (let vec1 = (jx a - jx b, jy a - jy b);
          vec2 = (jx c - jx b, jy c - jy b);
          norm1 = linalg_norm vec1;
          norm2 = linalg_norm vec2
      in if norm1 < epsilon \<or> norm2 < epsilon then None
         else Some (np_degrees (arccos (np_clip (np_dot vec1 vec2 / (norm1 * norm2)) (- 1) 1))))"

text \<open>\<open>ArmCurlCounter.calculate_angle\<close>: the same computation, followed by a range check.\<close>

definition ArmCurl_calculate_angle :: "joint \<Rightarrow> joint \<Rightarrow> joint \<Rightarrow> real option" where
  "ArmCurl_calculate_angle a b c =
     (let v1 = (jx a - jx b, jy a - jy b);
          v2 = (jx c - jx b, jy c - jy b);
          norm1 = linalg_norm v1;
          norm2 = linalg_norm v2
      in if norm1 < epsilon \<or> norm2 < epsilon then None
         else let angle = np_degrees (arccos (np_clip (np_dot v1 v2 / (norm1 * norm2)) (- 1) 1))
              in if 0 \<le> angle \<and> angle \<le> 180 then Some angle else None)"

section \<open>The base class\<close>

record ExerciseCounter =
  count :: int
  frame_count :: int

section \<open>Push-up counter\<close>

datatype PushUpState = UP | DOWN | TRANSITION

record PushUpCounter = ExerciseCounter +
  state :: PushUpState
  last_state_change :: int
  angle_history :: "real list"
  UP_ANGLE_THRESHOLD :: real
  DOWN_ANGLE_THRESHOLD :: real
  MIN_CONFIDENCE :: real
  MIN_FRAMES_IN_STATE :: int
  went_down :: bool

definition PushUpCounter_init :: PushUpCounter where
  "PushUpCounter_init =
     \<lparr> count = 0, frame_count = 0, state = UP, last_state_change = 0, angle_history = [],
       UP_ANGLE_THRESHOLD = 135, DOWN_ANGLE_THRESHOLD = 105, MIN_CONFIDENCE = 3 / 10,
       MIN_FRAMES_IN_STATE = 2, went_down = False \<rparr>"

text \<open>
  \<open>get_best_arm_angle\<close>.  Rows 5 to 10 are read; on a shorter array the first read of row 10
  raises IndexError, which the method's own handler turns into \<open>(None, 0)\<close>.
\<close>

definition PushUp_get_best_arm_angle :: "PushUpCounter \<Rightarrow> joint list \<Rightarrow> real option \<times> real" where
  "PushUp_get_best_arm_angle s ks =
     (if length ks < 11 then (None, 0)
      else
        let r_confidence = (jconf (ks ! 6) + jconf (ks ! 8) + jconf (ks ! 10)) / 3;
            l_confidence = (jconf (ks ! 5) + jconf (ks ! 7) + jconf (ks ! 9)) / 3;
            r_angle = (if r_confidence \<ge> MIN_CONFIDENCE s
                       then calculate_angle (ks ! 6) (ks ! 8) (ks ! 10) else None);
            l_angle = (if l_confidence \<ge> MIN_CONFIDENCE s
                       then calculate_angle (ks ! 5) (ks ! 7) (ks ! 9) else None)
        in case (r_angle, l_angle) of
             (Some r, Some l) \<Rightarrow>
               if \<bar>r_confidence - l_confidence\<bar> < 1 / 10
               then ((Some ((r + l) / 2)), (r_confidence + l_confidence) / 2)
               else if r_confidence > l_confidence then (Some r, r_confidence)
               else (Some l, l_confidence)
           | (Some r, None) \<Rightarrow> (Some r, r_confidence)
           | (None, Some l) \<Rightarrow> (Some l, l_confidence)
           | (None, None) \<Rightarrow> (None, 0))"

text \<open>\<open>smooth_angle\<close>: append to the window of 3, return the mean of the last two samples.\<close>

definition smooth_angle :: "PushUpCounter \<Rightarrow> real option \<Rightarrow> PushUpCounter \<times> real option" where
  "smooth_angle s angle =
     (case angle of
        None \<Rightarrow> (s, None)
      | Some a \<Rightarrow>
          let h = deque_append 3 (angle_history s) a;
              s' = s\<lparr>angle_history := h\<rparr>
          in if length h \<ge> 2 then (s', Some (np_mean (lastn 2 h))) else (s', Some a))"

definition change_state :: "PushUpCounter \<Rightarrow> PushUpState \<Rightarrow> PushUpCounter" where
  "change_state s new_state =
     (if new_state \<noteq> state s
      then s\<lparr>state := new_state, last_state_change := frame_count s\<rparr>
      else s)"

definition update_state_and_count :: "PushUpCounter \<Rightarrow> real option \<Rightarrow> PushUpCounter" where
  "update_state_and_count s angle =
     (case angle of
        None \<Rightarrow> s
      | Some a \<Rightarrow>
          let frames_in_current_state = frame_count s - last_state_change s
          in if frames_in_current_state < MIN_FRAMES_IN_STATE s then s
             else if state s = UP then
               (if a < DOWN_ANGLE_THRESHOLD s
                then (change_state s DOWN)\<lparr>went_down := True\<rparr>
                else s)
             else if state s = DOWN then
               (if a > UP_ANGLE_THRESHOLD s
                then (let s1 = change_state s UP
                      in if went_down s1
                         then s1\<lparr>count := count s1 + 1, went_down := False\<rparr>
                         else s1)
                else s)
             else s)"

text \<open>
  The part of \<open>analyze_pose\<close> that follows \<open>get_best_arm_angle\<close>: confidence gate, smoothing,
  state machine.
\<close>

definition PushUp_process_angle ::
    "PushUpCounter \<Rightarrow> real option \<times> real \<Rightarrow> PushUpCounter \<times> int \<times> real option" where
  "PushUp_process_angle s ac =
     (case ac of (angle, confidence) \<Rightarrow>
        if angle = None \<or> confidence < MIN_CONFIDENCE s then (s, count s, None)
        else case smooth_angle s angle of (s1, smoothed_angle) \<Rightarrow>
          if smoothed_angle = None then (s1, count s1, None)
          else let s2 = update_state_and_count s1 smoothed_angle
               in (s2, count s2, smoothed_angle))"

definition PushUp_analyze_pose ::
    "PushUpCounter \<Rightarrow> keypoints \<Rightarrow> PushUpCounter \<times> int \<times> real option" where
  "PushUp_analyze_pose s keypoints =
     (let s0 = s\<lparr>frame_count := frame_count s + 1\<rparr>
      in case keypoints of
           None \<Rightarrow> (s0, count s0, None)
         | Some ks \<Rightarrow>
             if length ks = 0 then (s0, count s0, None)
             else PushUp_process_angle s0 (PushUp_get_best_arm_angle s0 ks))"

definition PushUp_reset :: "PushUpCounter \<Rightarrow> PushUpCounter" where
  "PushUp_reset s =
     s\<lparr>count := 0, state := UP, frame_count := 0, last_state_change := 0,
       went_down := False, angle_history := []\<rparr>"

section \<open>Squat counter\<close>

text \<open>
  Fields whose names the push-up counter already uses carry the prefix \<open>squat_\<close>; the state is
  the string \<open>"up"\<close> or \<open>"down"\<close>, as in the source.
\<close>

record SquatCounter = ExerciseCounter +
  squat_state :: string
  squat_angle_history :: "real list"
  squat_up_threshold :: real
  squat_down_threshold :: real
  squat_went_down :: bool
  squat_last_state_change :: int
  min_frames_in_state :: int

definition SquatCounter_init :: SquatCounter where
  "SquatCounter_init =
     \<lparr> count = 0, frame_count = 0, squat_state = ''up'', squat_angle_history = [],
       squat_up_threshold = 170, squat_down_threshold = 140, squat_went_down = False,
       squat_last_state_change = 0, min_frames_in_state = 2 \<rparr>"

text \<open>
  \<open>get_best_leg_angle\<close>.  Rows 11 to 16 are read (IndexError on a shorter array).  When both
  confidences reach 0.3 the two angles are subtracted; if one of them is \<open>None\<close> that raises
  TypeError.  Either exception is caught by the method's handler, which returns \<open>(None, 0)\<close>.
\<close>

definition get_best_leg_angle :: "joint list \<Rightarrow> real option \<times> real" where
  "get_best_leg_angle ks =
     (if length ks < 17 then (None, 0)
      else
        let r_angle = calculate_angle (ks ! 12) (ks ! 14) (ks ! 16);
            l_angle = calculate_angle (ks ! 11) (ks ! 13) (ks ! 15);
            r_conf = (jconf (ks ! 12) + jconf (ks ! 14) + jconf (ks ! 16)) / 3;
            l_conf = (jconf (ks ! 11) + jconf (ks ! 13) + jconf (ks ! 15)) / 3
        in if r_conf \<ge> 3 / 10 \<and> l_conf \<ge> 3 / 10 then
             (case (r_angle, l_angle) of
                (Some r, Some l) \<Rightarrow>
                  if \<bar>r - l\<bar> < 30 then (Some ((r + l) / 2), (r_conf + l_conf) / 2)
                  else ((if r_conf \<ge> l_conf then Some r else Some l), max r_conf l_conf)
              | (Some r, None) \<Rightarrow> (None, 0)
              | (None, _) \<Rightarrow> (None, 0))
           else if r_conf \<ge> 3 / 10 then (r_angle, r_conf)
           else if l_conf \<ge> 3 / 10 then (l_angle, l_conf)
           else (None, 0))"

definition Squat_process_angle ::
    "SquatCounter \<Rightarrow> real option \<times> real \<Rightarrow> SquatCounter \<times> int \<times> real option" where
  "Squat_process_angle s ac =
     (case ac of
        (None, confidence) \<Rightarrow> (s, count s, None)
      | (Some angle, confidence) \<Rightarrow>
          if confidence < 3 / 10 then (s, count s, None)
          else
            let h = deque_append 3 (squat_angle_history s) angle;
                s1 = s\<lparr>squat_angle_history := h\<rparr>;
                avg_angle = (if length h \<ge> 2 then np_mean (lastn 2 h) else angle);
                frames_in_current_state = frame_count s1 - squat_last_state_change s1
            in if frames_in_current_state < min_frames_in_state s1
               then (s1, count s1, Some avg_angle)
               else if squat_state s1 = ''up'' \<and> avg_angle < squat_down_threshold s1 then
                 (let s2 = s1\<lparr>squat_state := ''down'', squat_went_down := True,
                                squat_last_state_change := frame_count s1\<rparr>
                  in (s2, count s2, Some avg_angle))
               else if squat_state s1 = ''down'' \<and> avg_angle > squat_up_threshold s1 then
                 (let s2 = s1\<lparr>squat_state := ''up'', squat_last_state_change := frame_count s1\<rparr>;
                      s3 = (if squat_went_down s2
                            then s2\<lparr>count := count s2 + 1, squat_went_down := False\<rparr>
                            else s2)
                  in (s3, count s3, Some avg_angle))
               else (s1, count s1, Some avg_angle))"

definition Squat_analyze_pose ::
    "SquatCounter \<Rightarrow> keypoints \<Rightarrow> SquatCounter \<times> int \<times> real option" where
  "Squat_analyze_pose s keypoints =
     (let s0 = s\<lparr>frame_count := frame_count s + 1\<rparr>
      in case keypoints of
           None \<Rightarrow> (s0, count s0, None)
         | Some ks \<Rightarrow>
             if length ks = 0 then (s0, count s0, None)
             else Squat_process_angle s0 (get_best_leg_angle ks))"

definition Squat_reset :: "SquatCounter \<Rightarrow> SquatCounter" where
  "Squat_reset s =
     s\<lparr>count := 0, squat_state := ''up'', squat_angle_history := [], frame_count := 0,
       squat_went_down := False, squat_last_state_change := 0\<rparr>"

section \<open>Arm-curl counter\<close>

record ArmCurlCounter = ExerciseCounter +
  armcurl_angle_history :: "real list"
  armcurl_state :: string
  armcurl_up_threshold :: real
  armcurl_down_threshold :: real

definition ArmCurlCounter_init :: ArmCurlCounter where
  "ArmCurlCounter_init =
     \<lparr> count = 0, frame_count = 0, armcurl_angle_history = [], armcurl_state = ''down'',
       armcurl_up_threshold = 90, armcurl_down_threshold = 120 \<rparr>"

text \<open>\<open>ArmCurlCounter.get_best_arm_angle\<close>: angle, confidence and the name of the arm.\<close>

definition ArmCurl_get_best_arm_angle :: "joint list \<Rightarrow> real option \<times> real \<times> string" where
  "ArmCurl_get_best_arm_angle ks =
     (if length ks < 11 then (None, 0, ''Error'')
      else
        let r_angle = ArmCurl_calculate_angle (ks ! 6) (ks ! 8) (ks ! 10);
            l_angle = ArmCurl_calculate_angle (ks ! 5) (ks ! 7) (ks ! 9);
            r_conf = (jconf (ks ! 6) + jconf (ks ! 8) + jconf (ks ! 10)) / 3;
            l_conf = (jconf (ks ! 5) + jconf (ks ! 7) + jconf (ks ! 9)) / 3
        in case (r_angle, l_angle) of
             (Some r, Some l) \<Rightarrow>
               if r_conf \<ge> l_conf then (Some r, r_conf, ''Right'') else (Some l, l_conf, ''Left'')
           | (Some r, None) \<Rightarrow> (Some r, r_conf, ''Right'')
           | (None, Some l) \<Rightarrow> (Some l, l_conf, ''Left'')
           | (None, None) \<Rightarrow> (None, 0, ''None''))"

text \<open>
  The part of \<open>analyze_pose\<close> after \<open>get_best_arm_angle\<close>.  While the window of 5 is not full
  the raw angle of the frame is returned.
\<close>

definition ArmCurl_process_angle ::
    "ArmCurlCounter \<Rightarrow> real option \<times> real \<times> string \<Rightarrow> ArmCurlCounter \<times> int \<times> real option" where
  "ArmCurl_process_angle s acs =
     (case acs of
        (None, confidence, arm_side) \<Rightarrow> (s, count s, None)
      | (Some angle, confidence, arm_side) \<Rightarrow>
          if confidence < 1 / 2 then (s, count s, None)
          else
            let h = deque_append 5 (armcurl_angle_history s) angle;
                s1 = s\<lparr>armcurl_angle_history := h\<rparr>
            in if length h = 5 then
                 (let avg_angle = np_mean h;
                      s2 = (if avg_angle < armcurl_up_threshold s1 \<and> armcurl_state s1 = ''down''
                            then s1\<lparr>armcurl_state := ''up''\<rparr>
                            else if avg_angle > armcurl_down_threshold s1 \<and> armcurl_state s1 = ''up''
                            then s1\<lparr>count := count s1 + 1, armcurl_state := ''down''\<rparr>
                            else s1)
                  in (s2, count s2, Some avg_angle))
               else (s1, count s1, Some angle))"

definition ArmCurl_analyze_pose ::
    "ArmCurlCounter \<Rightarrow> keypoints \<Rightarrow> ArmCurlCounter \<times> int \<times> real option" where
  "ArmCurl_analyze_pose s keypoints =
     (case keypoints of
        None \<Rightarrow> (s, count s, None)
      | Some ks \<Rightarrow>
          if length ks = 0 then (s, count s, None)
          else ArmCurl_process_angle s (ArmCurl_get_best_arm_angle ks))"

definition ArmCurl_reset :: "ArmCurlCounter \<Rightarrow> ArmCurlCounter" where
  "ArmCurl_reset s =
     s\<lparr>count := 0, armcurl_state := ''down'', armcurl_angle_history := [], frame_count := 0\<rparr>"

section \<open>Configuration\<close>

text \<open>The fields of the global \<open>config\<close> object that the counters read.\<close>

record Config =
  min_confidence :: real
  rep_cooldown :: real
  min_consecutive_frames :: real
  movement_threshold :: real
  min_movement_range :: real

definition config :: Config where
  "config =
     \<lparr> min_confidence = 3 / 10, rep_cooldown = 1 / 2, min_consecutive_frames = 3,
       movement_threshold = 4, min_movement_range = 15 \<rparr>"

section \<open>Pull-up counter\<close>

text \<open>
  A change-log entry is \<open>(direction, timestamp, displacement)\<close>.  \<open>time.time()\<close> is read twice
  per frame, once when a direction change is logged and once for the cooldown test; both
  readings are arguments of the model.
\<close>

type_synonym change_entry = "string \<times> real \<times> real"

record PullUpCounter = ExerciseCounter +
  position :: string
  position_history :: "real list"
  direction_history :: "change_entry list"
  last_rep_time :: real
  current_direction :: string
  consecutive_up_frames :: real
  consecutive_down_frames :: real

definition PullUpCounter_init :: PullUpCounter where
  "PullUpCounter_init =
     \<lparr> count = 0, frame_count = 0, position = ''neutral'', position_history = [],
       direction_history = [], last_rep_time = 0, current_direction = ''stable'',
       consecutive_up_frames = 0, consecutive_down_frames = 0 \<rparr>"

text \<open>The local variables \<open>movement\<close> and \<open>new_direction\<close> of \<open>detect_direction_change\<close>.\<close>

definition movement_of :: "real list \<Rightarrow> real" where
  "movement_of ph = (let recent = lastn 5 ph in last recent - recent ! 0)"

definition new_direction_of :: "Config \<Rightarrow> real \<Rightarrow> string" where
  "new_direction_of cfg movement =
     (if movement > movement_threshold cfg then ''up''
      else if movement < - movement_threshold cfg then ''down''
      else ''stable'')"

text \<open>The update of the two consecutive-frame counters.\<close>

definition update_consecutive :: "PullUpCounter \<Rightarrow> string \<Rightarrow> PullUpCounter" where
  "update_consecutive s new_direction =
     (if new_direction = ''up''
      then s\<lparr>consecutive_up_frames := consecutive_up_frames s + 1, consecutive_down_frames := 0\<rparr>
      else if new_direction = ''down''
      then s\<lparr>consecutive_down_frames := consecutive_down_frames s + 1, consecutive_up_frames := 0\<rparr>
      else
        let s1 = (if consecutive_up_frames s > 0
                  then s\<lparr>consecutive_up_frames := max 0 (consecutive_up_frames s - 1 / 2)\<rparr>
                  else s)
        in if consecutive_down_frames s1 > 0
           then s1\<lparr>consecutive_down_frames := max 0 (consecutive_down_frames s1 - 1 / 2)\<rparr>
           else s1)"

definition confirmed_direction_of :: "Config \<Rightarrow> PullUpCounter \<Rightarrow> string" where
  "confirmed_direction_of cfg s =
     (if consecutive_up_frames s \<ge> min_consecutive_frames cfg then ''up''
      else if consecutive_down_frames s \<ge> min_consecutive_frames cfg then ''down''
      else if consecutive_up_frames s = 0 \<and> consecutive_down_frames s = 0 then ''stable''
      else current_direction s)"

definition detect_direction_change ::
    "Config \<Rightarrow> PullUpCounter \<Rightarrow> real \<Rightarrow> real \<Rightarrow> PullUpCounter \<times> string \<times> real" where
  "detect_direction_change cfg s current_diff now =
     (let s1 = s\<lparr>position_history := deque_append 30 (position_history s) current_diff\<rparr>
      in if length (position_history s1) < 5 then (s1, ''starting'', 0)
         else
           let movement = movement_of (position_history s1);
               new_direction = new_direction_of cfg movement;
               s2 = update_consecutive s1 new_direction;
               confirmed_direction = confirmed_direction_of cfg s2;
               s3 = (if confirmed_direction \<noteq> current_direction s2
                     then s2\<lparr>direction_history :=
                                 deque_append 10 (direction_history s2)
                                   (confirmed_direction, now, current_diff),
                             current_direction := confirmed_direction\<rparr>
                     else s2)
           in (s3, confirmed_direction, \<bar>movement\<bar>))"

text \<open>The rep test of \<open>analyze_pose\<close>: cooldown, the last two log entries, movement range.\<close>

definition rep_detected :: "Config \<Rightarrow> PullUpCounter \<Rightarrow> real \<Rightarrow> bool" where
  "rep_detected cfg s current_time =
     (if current_time - last_rep_time s > rep_cooldown cfg then
        (if length (direction_history s) \<ge> 2 then
           (let recent_changes = lastn 2 (direction_history s)
            in if length recent_changes = 2 \<and> fst (recent_changes ! 0) = ''down''
                    \<and> fst (recent_changes ! 1) = ''up''
               then
                 (let down_diff = snd (snd (recent_changes ! 0));
                      up_diff = snd (snd (recent_changes ! 1));
                      movement_range = \<bar>up_diff - down_diff\<bar>
                  in movement_range > min_movement_range cfg)
               else False)
         else False)
      else False)"

definition position_label :: "string \<Rightarrow> string" where
  "position_label direction =
     (if direction = ''up'' then ''pulling_up''
      else if direction = ''down'' then ''lowering_down''
      else ''stable'')"

text \<open>
  \<open>PullUpCounter.analyze_pose\<close>.  Rows 5, 6, 9 and 10 are read; on a shorter array the
  IndexError is caught by the handler, which returns \<open>(count, "error")\<close> before anything was
  changed.
\<close>

text \<open>The local variable \<open>wrist_shoulder_diff\<close>: mean wrist height minus mean shoulder height.\<close>

definition wrist_shoulder_diff_of :: "joint list \<Rightarrow> real" where
  "wrist_shoulder_diff_of ks =
     (let shoulder_y = (jy (ks ! 5) + jy (ks ! 6)) / 2;
          wrist_y = (jy (ks ! 9) + jy (ks ! 10)) / 2
      in wrist_y - shoulder_y)"

definition PullUp_analyze_pose ::
    "Config \<Rightarrow> PullUpCounter \<Rightarrow> keypoints \<Rightarrow> real \<Rightarrow> real \<Rightarrow> PullUpCounter \<times> int \<times> string" where
  "PullUp_analyze_pose cfg s keypoints log_time current_time =
     (case keypoints of
        None \<Rightarrow> (s, count s, ''no_person'')
      | Some ks \<Rightarrow>
          if length ks = 0 then (s, count s, ''no_person'')
          else if length ks < 11 then (s, count s, ''error'')
          else
            let left_shoulder = ks ! 5; right_shoulder = ks ! 6;
                left_wrist = ks ! 9; right_wrist = ks ! 10;
                min_conf = min (min (jconf left_shoulder) (jconf right_shoulder))
                               (min (jconf left_wrist) (jconf right_wrist))
            in if min_conf < min_confidence cfg then (s, count s, ''low_confidence'')
               else
                 let wrist_shoulder_diff = wrist_shoulder_diff_of ks
                 in case detect_direction_change cfg s wrist_shoulder_diff log_time of
                      (s1, direction, magnitude) \<Rightarrow>
                        let s2 = (if rep_detected cfg s1 current_time
                                  then s1\<lparr>count := count s1 + 1, last_rep_time := current_time,
                                          direction_history := []\<rparr>
                                  else s1);
                            s3 = s2\<lparr>position := position_label direction\<rparr>
                        in (s3, count s3, position s3))"

definition PullUp_reset :: "PullUpCounter \<Rightarrow> PullUpCounter" where
  "PullUp_reset s =
     s\<lparr>count := 0, position := ''neutral'', position_history := [], direction_history := [],
       last_rep_time := 0, current_direction := ''stable'', consecutive_up_frames := 0,
       consecutive_down_frames := 0, frame_count := 0\<rparr>"

section \<open>The workout counter\<close>

datatype Counter =
    PullUp PullUpCounter
  | PushUp PushUpCounter
  | Squat SquatCounter
  | ArmCurl ArmCurlCounter

text \<open>The second component of an \<open>analyze_pose\<close> result: \<open>None\<close>, a label or an angle.\<close>

datatype Any = PyNone | PyStr string | PyFloat real

definition of_angle :: "real option \<Rightarrow> Any" where
  "of_angle a = (case a of None \<Rightarrow> PyNone | Some x \<Rightarrow> PyFloat x)"

fun counter_count :: "Counter \<Rightarrow> int" where
  "counter_count (PullUp c) = count c"
| "counter_count (PushUp c) = count c"
| "counter_count (Squat c) = count c"
| "counter_count (ArmCurl c) = count c"

fun counter_frame_count :: "Counter \<Rightarrow> int" where
  "counter_frame_count (PullUp c) = frame_count c"
| "counter_frame_count (PushUp c) = frame_count c"
| "counter_frame_count (Squat c) = frame_count c"
| "counter_frame_count (ArmCurl c) = frame_count c"

fun bump_frame_count :: "Counter \<Rightarrow> Counter" where
  "bump_frame_count (PullUp c) = PullUp (c\<lparr>frame_count := frame_count c + 1\<rparr>)"
| "bump_frame_count (PushUp c) = PushUp (c\<lparr>frame_count := frame_count c + 1\<rparr>)"
| "bump_frame_count (Squat c) = Squat (c\<lparr>frame_count := frame_count c + 1\<rparr>)"
| "bump_frame_count (ArmCurl c) = ArmCurl (c\<lparr>frame_count := frame_count c + 1\<rparr>)"

text \<open>Dynamic dispatch of \<open>analyze_pose\<close> and \<open>reset\<close>.\<close>

fun analyze_pose :: "Config \<Rightarrow> Counter \<Rightarrow> keypoints \<Rightarrow> real \<Rightarrow> real \<Rightarrow> Counter \<times> int \<times> Any" where
  "analyze_pose cfg (PullUp c) kp log_time current_time =
     (case PullUp_analyze_pose cfg c kp log_time current_time of
        (c', n, label) \<Rightarrow> (PullUp c', n, PyStr label))"
| "analyze_pose cfg (PushUp c) kp log_time current_time =
     (case PushUp_analyze_pose c kp of (c', n, a) \<Rightarrow> (PushUp c', n, of_angle a))"
| "analyze_pose cfg (Squat c) kp log_time current_time =
     (case Squat_analyze_pose c kp of (c', n, a) \<Rightarrow> (Squat c', n, of_angle a))"
| "analyze_pose cfg (ArmCurl c) kp log_time current_time =
     (case ArmCurl_analyze_pose c kp of (c', n, a) \<Rightarrow> (ArmCurl c', n, of_angle a))"

fun reset :: "Counter \<Rightarrow> Counter" where
  "reset (PullUp c) = PullUp (PullUp_reset c)"
| "reset (PushUp c) = PushUp (PushUp_reset c)"
| "reset (Squat c) = Squat (Squat_reset c)"
| "reset (ArmCurl c) = ArmCurl (ArmCurl_reset c)"

record WorkoutCounter =
  mode :: string
  counter :: "Counter option"
  session_frame_count :: int

text \<open>The dictionary \<open>counters\<close> of \<open>_initialize_counter\<close>, each class with its constructor run.\<close>

definition counters :: "string \<Rightarrow> Counter option" where
  "counters m =
     (if m = ''chinup'' then Some (PullUp PullUpCounter_init)
      else if m = ''pullup'' then Some (PullUp PullUpCounter_init)
      else if m = ''pushup'' then Some (PushUp PushUpCounter_init)
      else if m = ''squat'' then Some (Squat SquatCounter_init)
      else if m = ''armcurl'' then Some (ArmCurl ArmCurlCounter_init)
      else None)"

definition initialize_counter :: "WorkoutCounter \<Rightarrow> string \<Rightarrow> WorkoutCounter" where
  "initialize_counter w m =
     (case counters m of
        Some c \<Rightarrow> w\<lparr>counter := Some c\<rparr>
      | None \<Rightarrow> w\<lparr>counter := Some (PullUp PullUpCounter_init), mode := ''chinup''\<rparr>)"

definition WorkoutCounter_init :: "string \<Rightarrow> WorkoutCounter" where
  "WorkoutCounter_init m =
     initialize_counter \<lparr> mode = m, counter = None, session_frame_count = 0 \<rparr> m"

definition update ::
    "Config \<Rightarrow> WorkoutCounter \<Rightarrow> keypoints \<Rightarrow> real \<Rightarrow> real \<Rightarrow> WorkoutCounter \<times> int \<times> Any" where
  "update cfg w kp log_time current_time =
     (case counter w of
        None \<Rightarrow> (w, 0, PyNone)
      | Some c \<Rightarrow>
          let c1 = bump_frame_count c;
              w1 = w\<lparr>counter := Some c1, session_frame_count := counter_frame_count c1\<rparr>
          in case analyze_pose cfg c1 kp log_time current_time of
               (c2, r) \<Rightarrow> (w1\<lparr>counter := Some c2\<rparr>, r))"

definition WorkoutCounter_reset :: "WorkoutCounter \<Rightarrow> WorkoutCounter" where
  "WorkoutCounter_reset w =
     (case counter w of
        None \<Rightarrow> w
      | Some c \<Rightarrow> w\<lparr>counter := Some (reset c), session_frame_count := 0\<rparr>)"

definition switch_mode :: "WorkoutCounter \<Rightarrow> string \<Rightarrow> WorkoutCounter" where
  "switch_mode w new_mode =
     (if new_mode \<noteq> mode w
      then (initialize_counter (w\<lparr>mode := new_mode\<rparr>) new_mode)\<lparr>session_frame_count := 0\<rparr>
      else w)"

section \<open>Running a counter over a sequence of frames\<close>

fun run :: "('s \<Rightarrow> 'i \<Rightarrow> 's \<times> 'r) \<Rightarrow> 's \<Rightarrow> 'i list \<Rightarrow> ('s \<times> 'r) list" where
  "run step s [] = []"
| "run step s (i # is) = (case step s i of (s', r) \<Rightarrow> (s', r) # run step s' is)"

text \<open>One frame for the dispatcher: the pose array and the two clock readings.\<close>

definition analyze_frame ::
    "Config \<Rightarrow> Counter \<Rightarrow> keypoints \<times> real \<times> real \<Rightarrow> Counter \<times> int \<times> Any" where
  "analyze_frame cfg c f =
     (case f of (kp, log_time, current_time) \<Rightarrow> analyze_pose cfg c kp log_time current_time)"

definition returned_counts :: "('s \<times> int \<times> 'r) list \<Rightarrow> int list" where
  "returned_counts rs = map (\<lambda>r. fst (snd r)) rs"

section \<open>Synthetic frames\<close>

text \<open>
  A 17-row pose array in which both elbows (rows 7 and 8, at the origin) show the angle \<open>d\<close>
  degrees between shoulder and wrist, every arm joint with confidence 1.
\<close>

definition elbow_frame :: "real \<Rightarrow> joint list" where
  "elbow_frame d =
     (let z = (0, 0, 0);
          shoulder = (cos (d * pi / 180), sin (d * pi / 180), 1);
          elbow = (0, 0, 1);
          wrist = (1, 0, 1)
      in [z, z, z, z, z, shoulder, shoulder, elbow, elbow, wrist, wrist, z, z, z, z, z, z])"

text \<open>
  A 17-row pose array for the pull-up counter: both shoulders at height 0 and both wrists at
  height \<open>d\<close>, so that the wrist-shoulder displacement is \<open>d\<close>; the four joints have confidence 1.
\<close>

definition hang_frame :: "real \<Rightarrow> joint list" where
  "hang_frame d =
     (let z = (0, 0, 0);
          shoulder = (0, 0, 1);
          wrist = (0, d, 1)
      in [z, z, z, z, z, shoulder, shoulder, z, z, wrist, wrist, z, z, z, z, z, z])"

section \<open>Times of counted repetitions\<close>

text \<open>
  The clock readings (\<open>current_time\<close>) of those frames of a run of the pull-up counter on which
  \<open>analyze_pose\<close> changed the count, in order.
\<close>

fun rep_times :: "Config \<Rightarrow> PullUpCounter \<Rightarrow> (keypoints \<times> real \<times> real) list \<Rightarrow> real list" where
  "rep_times cfg s [] = []"
| "rep_times cfg s (f # fs) =
     (case f of (kp, log_time, current_time) \<Rightarrow>
        case PullUp_analyze_pose cfg s kp log_time current_time of
          (s', n, label) \<Rightarrow>
            (if count s' \<noteq> count s then [current_time] else []) @ rep_times cfg s' fs)"

section \<open>Limb measurements\<close>

text \<open>
  The confidence of one limb, as every \<open>get_best_..._angle\<close> computes it: the mean of the
  confidences of rows \<open>i\<close>, \<open>j\<close> and \<open>k\<close>.
\<close>

definition limb_confidence :: "joint list \<Rightarrow> nat \<Rightarrow> nat \<Rightarrow> nat \<Rightarrow> real" where
  "limb_confidence ks i j k = (jconf (ks ! i) + jconf (ks ! j) + jconf (ks ! k)) / 3"

text \<open>A frame in which every one of the listed rows has a confidence below \<open>bound\<close>.\<close>

definition confidences_below :: "joint list \<Rightarrow> nat list \<Rightarrow> real \<Rightarrow> bool" where
  "confidences_below ks rows bound = list_all (\<lambda>i. jconf (ks ! i) < bound) rows"

text \<open>
  Pose arrays with chosen limb angles.  \<open>arms_frame r l cr cl\<close> shows the right elbow (rows
  6, 8, 10) at \<open>r\<close> degrees with confidence \<open>cr\<close> on each of its joints and the left elbow
  (rows 5, 7, 9) at \<open>l\<close> degrees with confidence \<open>cl\<close>; \<open>legs_frame\<close> does the same for the
  knees (rows 12, 14, 16 and 11, 13, 15).
\<close>

definition arms_frame :: "real \<Rightarrow> real \<Rightarrow> real \<Rightarrow> real \<Rightarrow> joint list" where
  "arms_frame r l cr cl =
     (let z = (0, 0, 0)
      in [z, z, z, z, z,
          (cos (l * pi / 180), sin (l * pi / 180), cl), (cos (r * pi / 180), sin (r * pi / 180), cr),
          (0, 0, cl), (0, 0, cr), (1, 0, cl), (1, 0, cr),
          z, z, z, z, z, z])"

definition legs_frame :: "real \<Rightarrow> real \<Rightarrow> real \<Rightarrow> real \<Rightarrow> joint list" where
  "legs_frame r l cr cl =
     (let z = (0, 0, 0)
      in [z, z, z, z, z, z, z, z, z, z, z,
          (cos (l * pi / 180), sin (l * pi / 180), cl), (cos (r * pi / 180), sin (r * pi / 180), cr),
          (0, 0, cl), (0, 0, cr), (1, 0, cl), (1, 0, cr)])"

section \<open>Properties of the counters\<close>


lemma PushUp_analyze_pose_count:
  "PushUp_analyze_pose s kp = (s', n, a) \<Longrightarrow> n = count s' \<and> count s \<le> count s'"
  by (auto simp: PushUp_analyze_pose_def PushUp_process_angle_def smooth_angle_def
      update_state_and_count_def change_state_def Let_def split: option.splits prod.splits if_splits)

lemma Squat_analyze_pose_count:
  "Squat_analyze_pose s kp = (s', n, a) \<Longrightarrow> n = count s' \<and> count s \<le> count s'"
  by (auto simp: Squat_analyze_pose_def Squat_process_angle_def Let_def
      split: option.splits prod.splits if_splits)

lemma ArmCurl_analyze_pose_count:
  "ArmCurl_analyze_pose s kp = (s', n, a) \<Longrightarrow> n = count s' \<and> count s \<le> count s'"
  by (auto simp: ArmCurl_analyze_pose_def ArmCurl_process_angle_def Let_def
      split: option.splits prod.splits if_splits)

lemma detect_count:
  "detect_direction_change cfg s d t = (s1, r) \<Longrightarrow> count s1 = count s"
  by (auto simp: detect_direction_change_def update_consecutive_def Let_def split: if_splits)

lemma PullUp_analyze_pose_count:
  "PullUp_analyze_pose cfg s kp t1 t2 = (s', n, a) \<Longrightarrow> n = count s' \<and> count s \<le> count s'"
  by (auto simp: PullUp_analyze_pose_def Let_def split: option.splits prod.splits if_splits
      dest: detect_count)

lemma analyze_pose_count:
  "analyze_pose cfg c kp t1 t2 = (c', n, a) \<Longrightarrow> n = counter_count c' \<and> counter_count c \<le> counter_count c'"
  by (cases c) (auto split: prod.splits dest: PullUp_analyze_pose_count PushUp_analyze_pose_count
      Squat_analyze_pose_count ArmCurl_analyze_pose_count)

lemma run_counts_sorted:
  "sorted (counter_count c # returned_counts (run (analyze_frame cfg) c fs))"
proof (induction fs arbitrary: c)
  case Nil
  show ?case by (simp add: returned_counts_def)
next
  case (Cons f fs)
  obtain kp t1 t2 where f: "f = (kp, t1, t2)" by (cases f) auto
  obtain c' n a where st: "analyze_pose cfg c kp t1 t2 = (c', n, a)" by (cases "analyze_pose cfg c kp t1 t2") auto
  from analyze_pose_count[OF st] have n: "n = counter_count c'" and le: "counter_count c \<le> counter_count c'" by auto
  from Cons.IH[of c'] have ih: "sorted (counter_count c' # returned_counts (run (analyze_frame cfg) c' fs))" .
  have "returned_counts (run (analyze_frame cfg) c (f # fs)) = n # returned_counts (run (analyze_frame cfg) c' fs)"
    by (simp add: returned_counts_def analyze_frame_def f st)
  with ih n le show ?case by auto
qed

lemma reset_count: "counter_count (reset c) = 0"
  by (cases c) (simp_all add: PullUp_reset_def PushUp_reset_def Squat_reset_def ArmCurl_reset_def)

text \<open>
  Claim C1.  For every exercise counter and every sequence of frames, the counts returned by
  successive \<open>analyze_pose\<close> calls never decrease (starting from the count held before the
  first call), and right after \<open>reset\<close> the count is 0.
\<close>

theorem rep_count_monotone_and_reset:
  "sorted (counter_count c # returned_counts (run (analyze_frame cfg) c fs))
   \<and> counter_count (reset c) = 0"
  by (simp only: run_counts_sorted reset_count)

lemma linalg_norm_unit: "linalg_norm (cos x, sin x) = 1"
  by (simp add: linalg_norm_def power2_eq_square[symmetric])

lemma np_clip_id: "- 1 \<le> x \<Longrightarrow> x \<le> 1 \<Longrightarrow> np_clip x (- 1) 1 = x"
  by (simp add: np_clip_def)

lemma calculate_angle_elbow: "0 \<le> d \<Longrightarrow> d \<le> 180 \<Longrightarrow> calculate_angle (cos (d * pi / 180), sin (d * pi / 180), 1) (0,0,1) (1,0,1) = Some d"
proof -
  assume d: "0 \<le> d" "d \<le> 180"
  have r: "0 \<le> d * pi / 180" "d * pi / 180 \<le> pi" using d by (auto simp: field_simps)
  have c: "np_clip (cos (d * pi / 180)) (-1) 1 = cos (d * pi / 180)"
    by (rule np_clip_id) simp_all
  show ?thesis
    using r by (simp add: calculate_angle_def jx_def jy_def linalg_norm_unit np_dot_def c Let_def epsilon_def
       linalg_norm_def arccos_cos np_degrees_def)
qed

lemma get_best_arm_angle_elbow_frame: "0 \<le> d \<Longrightarrow> d \<le> 180 \<Longrightarrow> MIN_CONFIDENCE s \<le> 1 \<Longrightarrow>
   PushUp_get_best_arm_angle s (elbow_frame d) = (Some d, 1)"
  by (simp add: PushUp_get_best_arm_angle_def elbow_frame_def Let_def jconf_def calculate_angle_elbow)

lemma PushUp_analyze_pose_elbow_frame: "0 \<le> d \<Longrightarrow> d \<le> 180 \<Longrightarrow> MIN_CONFIDENCE s \<le> 1 \<Longrightarrow>
   PushUp_analyze_pose s (Some (elbow_frame d)) = PushUp_process_angle (s\<lparr>frame_count := frame_count s + 1\<rparr>) (Some d, 1)"
  by (simp add: PushUp_analyze_pose_def get_best_arm_angle_elbow_frame Let_def) (simp add: elbow_frame_def Let_def)

text \<open>
  Claim C2.  The push-up counter in its initial state (dwell 2, thresholds 135 and 105), fed
  frames whose elbow angles are 170, 170, 170, 100, 100, 100, 170, 170, 170.  The trace lists,
  per frame, the state after the frame, the returned count and the smoothed angle: the final
  count is 1, the state first becomes DOWN on frame 5, and the count increments on frame 8,
  the first frame whose smoothed angle exceeds 135 after the smoothed angle was below 105.
\<close>

theorem pushup_synthetic_sequence:
  "MIN_FRAMES_IN_STATE PushUpCounter_init = 2
   \<and> UP_ANGLE_THRESHOLD PushUpCounter_init = 135
   \<and> DOWN_ANGLE_THRESHOLD PushUpCounter_init = 105
   \<and> map (\<lambda>(s, c, a). (state s, c, a))
     (run PushUp_analyze_pose PushUpCounter_init
        (map (\<lambda>d. Some (elbow_frame d)) [170, 170, 170, 100, 100, 100, 170, 170, 170]))
   = [(UP, 0, Some 170), (UP, 0, Some 170), (UP, 0, Some 170), (UP, 0, Some 135),
      (DOWN, 0, Some 100), (DOWN, 0, Some 100), (DOWN, 0, Some 135), (UP, 1, Some 170),
      (UP, 1, Some 170)]"
  by (simp add: PushUp_analyze_pose_elbow_frame PushUpCounter_init_def PushUp_process_angle_def smooth_angle_def
      update_state_and_count_def change_state_def deque_append_def lastn_def np_mean_def Let_def)

lemma detect_frame_count:
  "detect_direction_change cfg s d t = (s1, r) \<Longrightarrow> frame_count s1 = frame_count s"
  by (auto simp: detect_direction_change_def update_consecutive_def Let_def split: if_splits)

lemma PullUp_analyze_pose_frame_count:
  "PullUp_analyze_pose cfg s kp t1 t2 = (s', r) \<Longrightarrow> frame_count s' = frame_count s"
  by (auto simp: PullUp_analyze_pose_def Let_def split: option.splits prod.splits if_splits
      dest: detect_frame_count)

lemma ArmCurl_analyze_pose_frame_count:
  "ArmCurl_analyze_pose s kp = (s', r) \<Longrightarrow> frame_count s' = frame_count s"
  by (auto simp: ArmCurl_analyze_pose_def ArmCurl_process_angle_def Let_def
      split: option.splits prod.splits if_splits)

lemma PushUp_analyze_pose_frame_count:
  "PushUp_analyze_pose s kp = (s', r) \<Longrightarrow>
     frame_count s' = frame_count s + 1 \<and>
     (state s' = state s \<longrightarrow> last_state_change s' = last_state_change s)"
  by (auto simp: PushUp_analyze_pose_def PushUp_process_angle_def smooth_angle_def
      update_state_and_count_def change_state_def Let_def
      split: option.splits prod.splits if_splits)

lemma Squat_analyze_pose_frame_count:
  "Squat_analyze_pose s kp = (s', r) \<Longrightarrow>
     frame_count s' = frame_count s + 1 \<and>
     (squat_state s' = squat_state s \<longrightarrow> squat_last_state_change s' = squat_last_state_change s)"
  by (auto simp: Squat_analyze_pose_def Squat_process_angle_def Let_def
      split: option.splits prod.splits if_splits)

text \<open>
  Claim C10.  Each \<open>WorkoutCounter.update\<close> raises the active counter's \<open>frame_count\<close> by
  exactly 2 when that counter is the push-up or squat counter (once in \<open>update\<close>, once in
  the counter's \<open>analyze_pose\<close>), so that frames-in-state, \<open>frame_count\<close> minus the frame of
  the last state change, grows by 2 per frame while the state stays; with the pull-up or
  arm-curl counter active it rises by exactly 1.
\<close>

theorem update_frame_count_step:
  "(counter w = Some (PushUp p) \<longrightarrow>
      (\<exists>p'. counter (fst (update cfg w kp t1 t2)) = Some (PushUp p') \<and>
            frame_count p' = frame_count p + 2 \<and>
            (state p' = state p \<longrightarrow>
               frame_count p' - last_state_change p' = frame_count p - last_state_change p + 2)))
   \<and> (counter w = Some (Squat q) \<longrightarrow>
      (\<exists>q'. counter (fst (update cfg w kp t1 t2)) = Some (Squat q') \<and>
            frame_count q' = frame_count q + 2 \<and>
            (squat_state q' = squat_state q \<longrightarrow>
               frame_count q' - squat_last_state_change q'
                 = frame_count q - squat_last_state_change q + 2)))
   \<and> (counter w = Some (PullUp u) \<longrightarrow>
      (\<exists>u'. counter (fst (update cfg w kp t1 t2)) = Some (PullUp u') \<and>
            frame_count u' = frame_count u + 1))
   \<and> (counter w = Some (ArmCurl a) \<longrightarrow>
      (\<exists>a'. counter (fst (update cfg w kp t1 t2)) = Some (ArmCurl a') \<and>
            frame_count a' = frame_count a + 1))"
proof (intro conjI impI)
  assume c: "counter w = Some (PushUp p)"
  obtain p' r where st: "PushUp_analyze_pose (p\<lparr>frame_count := frame_count p + 1\<rparr>) kp = (p', r)"
    by (cases "PushUp_analyze_pose (p\<lparr>frame_count := frame_count p + 1\<rparr>) kp") auto
  from PushUp_analyze_pose_frame_count[OF st]
  have "frame_count p' = frame_count p + 2"
    and "state p' = state p \<longrightarrow> last_state_change p' = last_state_change p" by auto
  moreover have "counter (fst (update cfg w kp t1 t2)) = Some (PushUp p')"
    using c st by (cases r) (simp add: update_def)
  ultimately show "\<exists>p'. counter (fst (update cfg w kp t1 t2)) = Some (PushUp p') \<and>
            frame_count p' = frame_count p + 2 \<and>
            (state p' = state p \<longrightarrow>
               frame_count p' - last_state_change p' = frame_count p - last_state_change p + 2)"
    by auto
next
  assume c: "counter w = Some (Squat q)"
  obtain q' r where st: "Squat_analyze_pose (q\<lparr>frame_count := frame_count q + 1\<rparr>) kp = (q', r)"
    by (cases "Squat_analyze_pose (q\<lparr>frame_count := frame_count q + 1\<rparr>) kp") auto
  from Squat_analyze_pose_frame_count[OF st]
  have "frame_count q' = frame_count q + 2"
    and "squat_state q' = squat_state q \<longrightarrow> squat_last_state_change q' = squat_last_state_change q"
    by auto
  moreover have "counter (fst (update cfg w kp t1 t2)) = Some (Squat q')"
    using c st by (cases r) (simp add: update_def)
  ultimately show "\<exists>q'. counter (fst (update cfg w kp t1 t2)) = Some (Squat q') \<and>
            frame_count q' = frame_count q + 2 \<and>
            (squat_state q' = squat_state q \<longrightarrow>
               frame_count q' - squat_last_state_change q'
                 = frame_count q - squat_last_state_change q + 2)"
    by auto
next
  assume c: "counter w = Some (PullUp u)"
  obtain u' r where st:
    "PullUp_analyze_pose cfg (u\<lparr>frame_count := frame_count u + 1\<rparr>) kp t1 t2 = (u', r)"
    by (cases "PullUp_analyze_pose cfg (u\<lparr>frame_count := frame_count u + 1\<rparr>) kp t1 t2") auto
  from PullUp_analyze_pose_frame_count[OF st] have "frame_count u' = frame_count u + 1" by simp
  moreover have "counter (fst (update cfg w kp t1 t2)) = Some (PullUp u')"
    using c st by (cases r) (simp add: update_def)
  ultimately show "\<exists>u'. counter (fst (update cfg w kp t1 t2)) = Some (PullUp u') \<and>
            frame_count u' = frame_count u + 1" by auto
next
  assume c: "counter w = Some (ArmCurl a)"
  obtain a' r where st: "ArmCurl_analyze_pose (a\<lparr>frame_count := frame_count a + 1\<rparr>) kp = (a', r)"
    by (cases "ArmCurl_analyze_pose (a\<lparr>frame_count := frame_count a + 1\<rparr>) kp") auto
  from ArmCurl_analyze_pose_frame_count[OF st] have "frame_count a' = frame_count a + 1" by simp
  moreover have "counter (fst (update cfg w kp t1 t2)) = Some (ArmCurl a')"
    using c st by (cases r) (simp add: update_def)
  ultimately show "\<exists>a'. counter (fst (update cfg w kp t1 t2)) = Some (ArmCurl a') \<and>
            frame_count a' = frame_count a + 1" by auto
qed

theorem update_frame_count_step_witness:
  "counter (WorkoutCounter_init ''pushup'') = Some (PushUp PushUpCounter_init)
   \<and> (\<exists>p'. counter (fst (update config (WorkoutCounter_init ''pushup'') None 0 0)) = Some (PushUp p')
           \<and> frame_count p' = 2)
   \<and> counter (WorkoutCounter_init ''squat'') = Some (Squat SquatCounter_init)
   \<and> (\<exists>q'. counter (fst (update config (WorkoutCounter_init ''squat'') None 0 0)) = Some (Squat q')
           \<and> frame_count q' = 2)
   \<and> counter (WorkoutCounter_init ''chinup'') = Some (PullUp PullUpCounter_init)
   \<and> (\<exists>u'. counter (fst (update config (WorkoutCounter_init ''chinup'') None 0 0)) = Some (PullUp u')
           \<and> frame_count u' = 1)
   \<and> counter (WorkoutCounter_init ''armcurl'') = Some (ArmCurl ArmCurlCounter_init)
   \<and> (\<exists>a'. counter (fst (update config (WorkoutCounter_init ''armcurl'') None 0 0)) = Some (ArmCurl a')
           \<and> frame_count a' = 1)"
proof -
  have c1: "counter (WorkoutCounter_init ''pushup'') = Some (PushUp PushUpCounter_init)"
    by (simp add: WorkoutCounter_init_def initialize_counter_def counters_def)
  have c2: "counter (WorkoutCounter_init ''squat'') = Some (Squat SquatCounter_init)"
    by (simp add: WorkoutCounter_init_def initialize_counter_def counters_def)
  have c3: "counter (WorkoutCounter_init ''chinup'') = Some (PullUp PullUpCounter_init)"
    by (simp add: WorkoutCounter_init_def initialize_counter_def counters_def)
  have c4: "counter (WorkoutCounter_init ''armcurl'') = Some (ArmCurl ArmCurlCounter_init)"
    by (simp add: WorkoutCounter_init_def initialize_counter_def counters_def)
  have f: "frame_count PushUpCounter_init = 0" "frame_count SquatCounter_init = 0"
    "frame_count PullUpCounter_init = 0" "frame_count ArmCurlCounter_init = 0"
    by (simp_all add: PushUpCounter_init_def SquatCounter_init_def PullUpCounter_init_def
        ArmCurlCounter_init_def)
  show ?thesis
    using update_frame_count_step[of "WorkoutCounter_init ''pushup''" PushUpCounter_init config None 0 0
            SquatCounter_init PullUpCounter_init ArmCurlCounter_init]
      update_frame_count_step[of "WorkoutCounter_init ''squat''" PushUpCounter_init config None 0 0
            SquatCounter_init PullUpCounter_init ArmCurlCounter_init]
      update_frame_count_step[of "WorkoutCounter_init ''chinup''" PushUpCounter_init config None 0 0
            SquatCounter_init PullUpCounter_init ArmCurlCounter_init]
      update_frame_count_step[of "WorkoutCounter_init ''armcurl''" PushUpCounter_init config None 0 0
            SquatCounter_init PullUpCounter_init ArmCurlCounter_init]
    by (simp add: c1 c2 c3 c4 f) blast
qed

text \<open>
  Claim C8.  Switching a workout counter to a mode other than its current one installs the
  freshly constructed counter of the new mode (unknown modes fall back to the pull-up
  counter): its count and frame count are 0 and its history is initial, the session frame
  count is reset, and nothing of the old counter is carried over.
\<close>

theorem switch_mode_fresh_counter:
  "new_mode \<noteq> mode w \<Longrightarrow>
   (\<exists>c. counter (switch_mode w new_mode) = Some c
       \<and> c = (if new_mode = ''pushup'' then PushUp PushUpCounter_init
              else if new_mode = ''squat'' then Squat SquatCounter_init
              else if new_mode = ''armcurl'' then ArmCurl ArmCurlCounter_init
              else PullUp PullUpCounter_init)
       \<and> counter_count c = 0 \<and> counter_frame_count c = 0)
   \<and> session_frame_count (switch_mode w new_mode) = 0
   \<and> switch_mode (w\<lparr>counter := old\<rparr>) new_mode = switch_mode w new_mode"
  by (simp add: switch_mode_def initialize_counter_def counters_def PushUpCounter_init_def
      SquatCounter_init_def ArmCurlCounter_init_def PullUpCounter_init_def)

theorem switch_mode_fresh_counter_witness:
  "''squat'' \<noteq> mode (WorkoutCounter_init ''pushup'')
   \<and> counter (switch_mode (fst (update config (WorkoutCounter_init ''pushup'') None 0 0)) ''squat'')
       = Some (Squat SquatCounter_init)
   \<and> session_frame_count
        (switch_mode (fst (update config (WorkoutCounter_init ''pushup'') None 0 0)) ''squat'') = 0"
proof -
  have m: "mode (fst (update config (WorkoutCounter_init ''pushup'') None 0 0)) = ''pushup''"
    by (simp add: update_def WorkoutCounter_init_def initialize_counter_def counters_def
        PushUp_analyze_pose_def Let_def)
  have m0: "mode (WorkoutCounter_init ''pushup'') = ''pushup''"
    by (simp add: WorkoutCounter_init_def initialize_counter_def counters_def)
  have ne: "''squat'' \<noteq> mode (fst (update config (WorkoutCounter_init ''pushup'') None 0 0))"
    by (simp add: m)
  show ?thesis
    using switch_mode_fresh_counter[OF ne] by (simp add: m0)
qed

lemma np_clip_bounds: "- 1 \<le> np_clip x (- 1) 1 \<and> np_clip x (- 1) 1 \<le> 1"
  by (simp add: np_clip_def)

lemma np_degrees_arccos_range:
  "0 \<le> np_degrees (arccos (np_clip x (- 1) 1)) \<and> np_degrees (arccos (np_clip x (- 1) 1)) \<le> 180"
proof -
  let ?y = "np_clip x (- 1) 1"
  have b: "- 1 \<le> ?y" "?y \<le> 1" using np_clip_bounds[of x] by auto
  have lo: "0 \<le> arccos ?y" by (rule arccos_lbound[OF b])
  have hi: "arccos ?y \<le> pi" by (rule arccos_ubound[OF b])
  have "0 \<le> arccos ?y * 180 / pi" using lo by simp
  moreover have "arccos ?y * 180 / pi \<le> 180"
    using hi by (simp add: field_simps)
  ultimately show ?thesis by (simp add: np_degrees_def)
qed

lemma np_dot_commute: "np_dot v w = np_dot w v"
  by (simp add: np_dot_def mult.commute)

lemma calculate_angle_commute: "calculate_angle a b c = calculate_angle c b a"
  by (simp add: calculate_angle_def Let_def np_dot_commute mult.commute disj_commute)

lemma ArmCurl_calculate_angle_commute: "ArmCurl_calculate_angle a b c = ArmCurl_calculate_angle c b a"
  by (simp add: ArmCurl_calculate_angle_def Let_def np_dot_commute mult.commute disj_commute)

lemma calculate_angle_valid:
  assumes "epsilon \<le> linalg_norm (jx a - jx b, jy a - jy b)"
      and "epsilon \<le> linalg_norm (jx c - jx b, jy c - jy b)"
  shows "\<exists>\<theta>. calculate_angle a b c = Some \<theta> \<and> ArmCurl_calculate_angle a b c = Some \<theta>
             \<and> 0 \<le> \<theta> \<and> \<theta> \<le> 180"
  using assms np_degrees_arccos_range
  by (simp add: calculate_angle_def ArmCurl_calculate_angle_def Let_def not_less[symmetric])

lemma calculate_angle_degenerate:
  assumes "linalg_norm (jx a - jx b, jy a - jy b) < epsilon
           \<or> linalg_norm (jx c - jx b, jy c - jy b) < epsilon"
  shows "calculate_angle a b c = None \<and> ArmCurl_calculate_angle a b c = None"
  using assms by (auto simp add: calculate_angle_def ArmCurl_calculate_angle_def Let_def)

lemma linalg_norm_zero: "linalg_norm (0, 0) < epsilon"
  by (simp add: linalg_norm_def epsilon_def)

text \<open>
  Claim C9.  When both vectors from the vertex \<open>b\<close> have magnitude at least epsilon (1e-6),
  the joint angle is a number between 0 and 180 degrees; the angle is symmetric in its outer
  points; and when either magnitude is below epsilon, in particular when \<open>a\<close> or \<open>c\<close> coincides
  with \<open>b\<close>, the result is \<open>None\<close>.  Stated for the push-up/squat variant and for the arm-curl
  variant of \<open>calculate_angle\<close>, over the reals.
\<close>

theorem calculate_angle_range_symmetric:
  "(epsilon \<le> linalg_norm (jx a - jx b, jy a - jy b)
      \<and> epsilon \<le> linalg_norm (jx c - jx b, jy c - jy b) \<longrightarrow>
       (\<exists>\<theta>. calculate_angle a b c = Some \<theta> \<and> ArmCurl_calculate_angle a b c = Some \<theta>
            \<and> 0 \<le> \<theta> \<and> \<theta> \<le> 180))
   \<and> calculate_angle a b c = calculate_angle c b a
   \<and> ArmCurl_calculate_angle a b c = ArmCurl_calculate_angle c b a
   \<and> (linalg_norm (jx a - jx b, jy a - jy b) < epsilon
        \<or> linalg_norm (jx c - jx b, jy c - jy b) < epsilon \<longrightarrow>
       calculate_angle a b c = None \<and> ArmCurl_calculate_angle a b c = None)
   \<and> ((jx a = jx b \<and> jy a = jy b) \<or> (jx c = jx b \<and> jy c = jy b) \<longrightarrow>
       calculate_angle a b c = None \<and> ArmCurl_calculate_angle a b c = None)"
proof (intro conjI impI)
  assume "epsilon \<le> linalg_norm (jx a - jx b, jy a - jy b)
      \<and> epsilon \<le> linalg_norm (jx c - jx b, jy c - jy b)"
  then show "\<exists>\<theta>. calculate_angle a b c = Some \<theta> \<and> ArmCurl_calculate_angle a b c = Some \<theta>
            \<and> 0 \<le> \<theta> \<and> \<theta> \<le> 180"
    using calculate_angle_valid by blast
next
  show "calculate_angle a b c = calculate_angle c b a" by (rule calculate_angle_commute)
next
  show "ArmCurl_calculate_angle a b c = ArmCurl_calculate_angle c b a"
    by (rule ArmCurl_calculate_angle_commute)
next
  assume d: "linalg_norm (jx a - jx b, jy a - jy b) < epsilon
        \<or> linalg_norm (jx c - jx b, jy c - jy b) < epsilon"
  from calculate_angle_degenerate[OF d] show "calculate_angle a b c = None" by simp
  from calculate_angle_degenerate[OF d] show "ArmCurl_calculate_angle a b c = None" by simp
next
  assume "(jx a = jx b \<and> jy a = jy b) \<or> (jx c = jx b \<and> jy c = jy b)"
  then have d: "linalg_norm (jx a - jx b, jy a - jy b) < epsilon
        \<or> linalg_norm (jx c - jx b, jy c - jy b) < epsilon"
    using linalg_norm_zero by auto
  from calculate_angle_degenerate[OF d] show "calculate_angle a b c = None" by simp
  from calculate_angle_degenerate[OF d] show "ArmCurl_calculate_angle a b c = None" by simp
qed

theorem calculate_angle_range_symmetric_witness:
  "epsilon \<le> linalg_norm (jx (0, 1, 1) - jx (0, 0, 1), jy (0, 1, 1) - jy (0, 0, 1))
   \<and> epsilon \<le> linalg_norm (jx (1, 0, 1) - jx (0, 0, 1), jy (1, 0, 1) - jy (0, 0, 1))
   \<and> (\<exists>\<theta>. ArmCurl_calculate_angle (0, 1, 1) (0, 0, 1) (1, 0, 1) = Some \<theta> \<and> 0 \<le> \<theta> \<and> \<theta> \<le> 180)
   \<and> calculate_angle (0, 1, 1) (0, 0, 1) (1, 0, 1) = Some 90
   \<and> calculate_angle (1, 0, 1) (0, 0, 1) (0, 1, 1) = Some 90
   \<and> jx (3, 4, 1) = jx (3, 4, 0) \<and> jy (3, 4, 1) = jy (3, 4, 0)
   \<and> calculate_angle (3, 4, 1) (3, 4, 0) (1, 0, 1) = None
   \<and> ArmCurl_calculate_angle (3, 4, 1) (3, 4, 0) (1, 0, 1) = None"
proof -
  have v: "calculate_angle (0, 1, 1) (0, 0, 1) (1, 0, 1) = Some 90"
    by (simp add: calculate_angle_def Let_def jx_def jy_def linalg_norm_def epsilon_def
        np_dot_def np_clip_def np_degrees_def)
  have n: "epsilon \<le> linalg_norm (jx (0, 1, 1) - jx (0, 0, 1), jy (0, 1, 1) - jy (0, 0, 1))"
     "epsilon \<le> linalg_norm (jx (1, 0, 1) - jx (0, 0, 1), jy (1, 0, 1) - jy (0, 0, 1))"
    by (simp_all add: jx_def jy_def linalg_norm_def epsilon_def)
  have e: "jx (3, 4, 1) = jx (3, 4, 0) \<and> jy (3, 4, 1) = jy (3, 4, 0)"
    by (simp add: jx_def jy_def)
  note t1 = calculate_angle_range_symmetric[of "(0, 1, 1)" "(0, 0, 1)" "(1, 0, 1)"]
  note t2 = calculate_angle_range_symmetric[of "(3, 4, 1)" "(3, 4, 0)" "(1, 0, 1)"]
  from t1 have s: "calculate_angle (0, 1, 1) (0, 0, 1) (1, 0, 1)
                   = calculate_angle (1, 0, 1) (0, 0, 1) (0, 1, 1)" by blast
  from t1 n have r: "\<exists>\<theta>. ArmCurl_calculate_angle (0, 1, 1) (0, 0, 1) (1, 0, 1) = Some \<theta>
      \<and> 0 \<le> \<theta> \<and> \<theta> \<le> 180" by blast
  from t2 e have d: "calculate_angle (3, 4, 1) (3, 4, 0) (1, 0, 1) = None
      \<and> ArmCurl_calculate_angle (3, 4, 1) (3, 4, 0) (1, 0, 1) = None" by blast
  show ?thesis using v n e s d r by simp
qed

lemma new_direction_of_cases:
  "new_direction_of cfg m = ''up'' \<or> new_direction_of cfg m = ''down'' \<or> new_direction_of cfg m = ''stable''"
  by (simp add: new_direction_of_def)

lemma update_consecutive_up:
  "consecutive_up_frames (update_consecutive s ''up'') = consecutive_up_frames s + 1
   \<and> consecutive_down_frames (update_consecutive s ''up'') = 0"
  by (simp add: update_consecutive_def)

lemma update_consecutive_down:
  "consecutive_down_frames (update_consecutive s ''down'') = consecutive_down_frames s + 1
   \<and> consecutive_up_frames (update_consecutive s ''down'') = 0"
  by (simp add: update_consecutive_def)

lemma update_consecutive_stable:
  "0 \<le> consecutive_up_frames s \<Longrightarrow> 0 \<le> consecutive_down_frames s \<Longrightarrow>
   consecutive_up_frames (update_consecutive s ''stable'') = max 0 (consecutive_up_frames s - 1 / 2)
   \<and> consecutive_down_frames (update_consecutive s ''stable'')
       = max 0 (consecutive_down_frames s - 1 / 2)"
  by (auto simp add: update_consecutive_def Let_def max_def)

lemma update_consecutive_other:
  "current_direction (update_consecutive s nd) = current_direction s
   \<and> position_history (update_consecutive s nd) = position_history s
   \<and> direction_history (update_consecutive s nd) = direction_history s
   \<and> count (update_consecutive s nd) = count s
   \<and> last_rep_time (update_consecutive s nd) = last_rep_time s"
  by (simp add: update_consecutive_def Let_def)

lemma update_consecutive_nonneg:
  "0 \<le> consecutive_up_frames s \<Longrightarrow> 0 \<le> consecutive_down_frames s \<Longrightarrow>
   0 \<le> consecutive_up_frames (update_consecutive s nd)
   \<and> 0 \<le> consecutive_down_frames (update_consecutive s nd)"
  by (auto simp add: update_consecutive_def Let_def)

lemma detect_warmup:
  "length (deque_append 30 (position_history s) d) < 5 \<Longrightarrow>
   detect_direction_change cfg s d t
     = (s\<lparr>position_history := deque_append 30 (position_history s) d\<rparr>, ''starting'', 0)"
  by (simp add: detect_direction_change_def Let_def)

lemma detect_running:
  assumes "\<not> length (deque_append 30 (position_history s) d) < 5"
      and "detect_direction_change cfg s d t = (s', dir, mag)"
  defines "s2 \<equiv> update_consecutive (s\<lparr>position_history := deque_append 30 (position_history s) d\<rparr>)
                  (new_direction_of cfg (movement_of (deque_append 30 (position_history s) d)))"
  shows "consecutive_up_frames s' = consecutive_up_frames s2
       \<and> consecutive_down_frames s' = consecutive_down_frames s2
       \<and> dir = confirmed_direction_of cfg s2
       \<and> current_direction s' = confirmed_direction_of cfg s2
       \<and> current_direction s2 = current_direction s"
  using assms(1,2) unfolding s2_def
  by (auto simp add: detect_direction_change_def Let_def update_consecutive_other split: if_splits)

text \<open>
  Claim C3.  One call of \<open>detect_direction_change\<close> on a state whose consecutive-frame
  counters are not negative.  During warm-up (fewer than 5 samples) direction and counters
  are untouched.  Afterwards: a frame classified up (down) adds 1 to the up (down) counter
  and zeroes the other; a frame classified stable lowers both by 0.5 without going below
  zero; the confirmed direction changes only to a direction whose counter has reached
  \<open>min_consecutive_frames\<close>, or to stable when both counters are 0, and is kept otherwise.
\<close>

theorem detect_direction_change_confirmation:
  assumes up0: "0 \<le> consecutive_up_frames s"
      and down0: "0 \<le> consecutive_down_frames s"
      and det: "detect_direction_change cfg s d t = (s', dir, mag)"
  shows "if length (deque_append 30 (position_history s) d) < 5
         then current_direction s' = current_direction s
              \<and> consecutive_up_frames s' = consecutive_up_frames s
              \<and> consecutive_down_frames s' = consecutive_down_frames s
         else (let nd = new_direction_of cfg (movement_of (deque_append 30 (position_history s) d));
                   up' = consecutive_up_frames s'; down' = consecutive_down_frames s'
               in (nd = ''up'' \<or> nd = ''down'' \<or> nd = ''stable'')
                \<and> (nd = ''up'' \<longrightarrow> up' = consecutive_up_frames s + 1 \<and> down' = 0)
                \<and> (nd = ''down'' \<longrightarrow> down' = consecutive_down_frames s + 1 \<and> up' = 0)
                \<and> (nd = ''stable'' \<longrightarrow>
                      up' = max 0 (consecutive_up_frames s - 1 / 2)
                      \<and> down' = max 0 (consecutive_down_frames s - 1 / 2))
                \<and> 0 \<le> up' \<and> 0 \<le> down'
                \<and> dir = current_direction s'
                \<and> (current_direction s' \<noteq> current_direction s \<longrightarrow>
                      (current_direction s' = ''up'' \<and> min_consecutive_frames cfg \<le> up')
                      \<or> (current_direction s' = ''down'' \<and> min_consecutive_frames cfg \<le> down')
                      \<or> (current_direction s' = ''stable'' \<and> up' = 0 \<and> down' = 0))
                \<and> (min_consecutive_frames cfg \<le> up' \<longrightarrow> current_direction s' = ''up'')
                \<and> (up' < min_consecutive_frames cfg \<and> min_consecutive_frames cfg \<le> down' \<longrightarrow>
                      current_direction s' = ''down'')
                \<and> (up' < min_consecutive_frames cfg \<and> down' < min_consecutive_frames cfg
                      \<and> up' = 0 \<and> down' = 0 \<longrightarrow> current_direction s' = ''stable'')
                \<and> (up' < min_consecutive_frames cfg \<and> down' < min_consecutive_frames cfg
                      \<and> \<not> (up' = 0 \<and> down' = 0) \<longrightarrow>
                      current_direction s' = current_direction s))"
proof (cases "length (deque_append 30 (position_history s) d) < 5")
  case True
  from detect_warmup[OF True, of cfg t] det
  have "s' = s\<lparr>position_history := deque_append 30 (position_history s) d\<rparr>" by simp
  with True show ?thesis by simp
next
  case False
  let ?s1 = "s\<lparr>position_history := deque_append 30 (position_history s) d\<rparr>"
  let ?nd = "new_direction_of cfg (movement_of (deque_append 30 (position_history s) d))"
  let ?s2 = "update_consecutive ?s1 ?nd"
  from detect_running[OF False det]
  have r: "consecutive_up_frames s' = consecutive_up_frames ?s2"
          "consecutive_down_frames s' = consecutive_down_frames ?s2"
          "dir = confirmed_direction_of cfg ?s2"
          "current_direction s' = confirmed_direction_of cfg ?s2"
          "current_direction ?s2 = current_direction s" by auto
  have nn: "0 \<le> consecutive_up_frames ?s1" "0 \<le> consecutive_down_frames ?s1"
    using up0 down0 by simp_all
  have cases: "?nd = ''up'' \<or> ?nd = ''down'' \<or> ?nd = ''stable''"
    by (rule new_direction_of_cases)
  have u: "?nd = ''up'' \<longrightarrow> consecutive_up_frames ?s2 = consecutive_up_frames s + 1
                      \<and> consecutive_down_frames ?s2 = 0"
    using update_consecutive_up[of ?s1] by auto
  have dn: "?nd = ''down'' \<longrightarrow> consecutive_down_frames ?s2 = consecutive_down_frames s + 1
                      \<and> consecutive_up_frames ?s2 = 0"
    using update_consecutive_down[of ?s1] by auto
  have st: "?nd = ''stable'' \<longrightarrow>
              consecutive_up_frames ?s2 = max 0 (consecutive_up_frames s - 1 / 2)
              \<and> consecutive_down_frames ?s2 = max 0 (consecutive_down_frames s - 1 / 2)"
    using update_consecutive_stable[OF nn] by auto
  have pos: "0 \<le> consecutive_up_frames ?s2 \<and> 0 \<le> consecutive_down_frames ?s2"
    by (rule update_consecutive_nonneg[OF nn])
  have conf: "current_direction s' =
     (if consecutive_up_frames s' \<ge> min_consecutive_frames cfg then ''up''
      else if consecutive_down_frames s' \<ge> min_consecutive_frames cfg then ''down''
      else if consecutive_up_frames s' = 0 \<and> consecutive_down_frames s' = 0 then ''stable''
      else current_direction s)"
    using r by (simp add: confirmed_direction_of_def)
  have chg: "current_direction s' \<noteq> current_direction s \<longrightarrow>
        (current_direction s' = ''up'' \<and> min_consecutive_frames cfg \<le> consecutive_up_frames s')
      \<or> (current_direction s' = ''down'' \<and> min_consecutive_frames cfg \<le> consecutive_down_frames s')
      \<or> (current_direction s' = ''stable'' \<and> consecutive_up_frames s' = 0
            \<and> consecutive_down_frames s' = 0)"
    using conf by (auto split: if_splits)
  have c1: "min_consecutive_frames cfg \<le> consecutive_up_frames s' \<longrightarrow> current_direction s' = ''up''"
    using conf by simp
  have c2: "consecutive_up_frames s' < min_consecutive_frames cfg
            \<and> min_consecutive_frames cfg \<le> consecutive_down_frames s' \<longrightarrow>
            current_direction s' = ''down''"
    using conf by simp
  have c3: "consecutive_up_frames s' < min_consecutive_frames cfg
            \<and> consecutive_down_frames s' < min_consecutive_frames cfg
            \<and> consecutive_up_frames s' = 0 \<and> consecutive_down_frames s' = 0 \<longrightarrow>
            current_direction s' = ''stable''"
    using conf by simp
  have c4: "consecutive_up_frames s' < min_consecutive_frames cfg
            \<and> consecutive_down_frames s' < min_consecutive_frames cfg
            \<and> \<not> (consecutive_up_frames s' = 0 \<and> consecutive_down_frames s' = 0) \<longrightarrow>
            current_direction s' = current_direction s"
    using conf by auto
  have dir: "dir = current_direction s'" using r by simp
  show ?thesis
    using False cases u dn st pos chg c1 c2 c3 c4 dir
    unfolding Let_def r(1,2)[symmetric]
    by (simp only: if_False simp_thms) 
qed

lemma lastn_2_append: "lastn 2 (pre @ [a, b]) = [a, b]"
  by (simp add: lastn_def)

lemma two_last: "2 \<le> length xs \<Longrightarrow> \<exists>pre a b. xs = pre @ [a, b]"
proof -
  assume l: "2 \<le> length xs"
  then have ne: "xs \<noteq> []" by auto
  then obtain ys b where xs: "xs = ys @ [b]" by (metis append_butlast_last_id)
  with l have "ys \<noteq> []" by auto
  then obtain pre a where "ys = pre @ [a]" by (metis append_butlast_last_id)
  with xs show ?thesis by auto
qed

lemma rep_detected_iff:
  "rep_detected cfg s t \<longleftrightarrow>
     (rep_cooldown cfg < t - last_rep_time s
      \<and> (\<exists>pre dt dx ut ux. direction_history s = pre @ [(''down'', dt, dx), (''up'', ut, ux)]
            \<and> min_movement_range cfg < \<bar>ux - dx\<bar>))"
proof (cases "2 \<le> length (direction_history s)")
  case False
  have "\<And>pre a b. direction_history s \<noteq> pre @ [a, b]"
  proof
    fix pre a b assume "direction_history s = pre @ [a, b]"
    then have "2 \<le> length (direction_history s)" by simp
    with False show False by simp
  qed
  with False show ?thesis by (auto simp add: rep_detected_def)
next
  case True
  from two_last[OF True] obtain pre a b where dh: "direction_history s = pre @ [a, b]" by blast
  obtain ad atm ax where a: "a = (ad, atm, ax)" by (cases a) auto
  obtain bd bt bx where b: "b = (bd, bt, bx)" by (cases b) auto
  show ?thesis
    using True by (auto simp add: rep_detected_def dh a b lastn_2_append Let_def)
qed

lemma detect_last_rep_time:
  "detect_direction_change cfg s d t = (s1, r) \<Longrightarrow>
     last_rep_time s1 = last_rep_time s \<and> count s1 = count s"
  by (auto simp: detect_direction_change_def update_consecutive_def Let_def split: if_splits)

lemma detect_log_length:
  "detect_direction_change cfg s d t = (s1, r) \<Longrightarrow>
     length (direction_history s1) \<le> Suc (length (direction_history s))"
  by (auto simp: detect_direction_change_def update_consecutive_def Let_def deque_append_def
      split: if_splits)

lemma PullUp_analyze_pose_cases:
  assumes "PullUp_analyze_pose cfg s kp t1 t2 = (s', n, label)"
  shows "(count s' = count s \<and> last_rep_time s' = last_rep_time s)
       \<or> (count s' = count s + 1 \<and> last_rep_time s' = t2 \<and> direction_history s' = []
           \<and> (\<exists>ks s1 dir mag. kp = Some ks
                 \<and> detect_direction_change cfg s (wrist_shoulder_diff_of ks) t1 = (s1, dir, mag)
                 \<and> rep_detected cfg s1 t2))"
  using assms
  by (auto simp: PullUp_analyze_pose_def Let_def split: option.splits prod.splits if_splits
      dest: detect_last_rep_time)

lemma rep_needs_two_entries:
  "rep_detected cfg s t \<Longrightarrow> 2 \<le> length (direction_history s)"
  by (auto simp: rep_detected_def split: if_splits)

lemma no_rep_after_clear:
  assumes "direction_history s = []"
  shows "count (fst (PullUp_analyze_pose cfg s kp t1 t2)) = count s"
proof -
  obtain s' n label where st: "PullUp_analyze_pose cfg s kp t1 t2 = (s', n, label)"
    by (cases "PullUp_analyze_pose cfg s kp t1 t2") auto
  from PullUp_analyze_pose_cases[OF st] show ?thesis
  proof
    assume "count s' = count s \<and> last_rep_time s' = last_rep_time s"
    with st show ?thesis by simp
  next
    assume "count s' = count s + 1 \<and> last_rep_time s' = t2 \<and> direction_history s' = []
           \<and> (\<exists>ks s1 dir mag. kp = Some ks
                 \<and> detect_direction_change cfg s (wrist_shoulder_diff_of ks) t1 = (s1, dir, mag)
                 \<and> rep_detected cfg s1 t2)"
    then obtain ks s1 dir mag where
      d: "detect_direction_change cfg s (wrist_shoulder_diff_of ks) t1 = (s1, dir, mag)"
      and r: "rep_detected cfg s1 t2" by blast
    from detect_log_length[OF d] assms have "length (direction_history s1) \<le> 1" by simp
    with rep_needs_two_entries[OF r] show ?thesis by simp
  qed
qed

lemma rep_times_spacing:
  assumes cd: "0 \<le> rep_cooldown cfg"
  shows "sorted_wrt (\<lambda>a b. rep_cooldown cfg < b - a) (last_rep_time s # rep_times cfg s fs)"
proof (induction fs arbitrary: s)
  case Nil
  show ?case by simp
next
  case (Cons f fs)
  obtain kp t1 t2 where f: "f = (kp, t1, t2)" by (cases f) auto
  obtain s' n label where st: "PullUp_analyze_pose cfg s kp t1 t2 = (s', n, label)"
    by (cases "PullUp_analyze_pose cfg s kp t1 t2") auto
  have ih: "sorted_wrt (\<lambda>a b. rep_cooldown cfg < b - a) (last_rep_time s' # rep_times cfg s' fs)"
    by (rule Cons.IH)
  from PullUp_analyze_pose_cases[OF st] show ?case
  proof
    assume a: "count s' = count s \<and> last_rep_time s' = last_rep_time s"
    then have rt: "rep_times cfg s (f # fs) = rep_times cfg s' fs" by (simp add: f st)
    from ih a show ?thesis unfolding rt by simp
  next
    assume a: "count s' = count s + 1 \<and> last_rep_time s' = t2 \<and> direction_history s' = []
           \<and> (\<exists>ks s1 dir mag. kp = Some ks
                 \<and> detect_direction_change cfg s (wrist_shoulder_diff_of ks) t1 = (s1, dir, mag)
                 \<and> rep_detected cfg s1 t2)"
    then obtain ks s1 dir mag where
      d: "detect_direction_change cfg s (wrist_shoulder_diff_of ks) t1 = (s1, dir, mag)"
      and r: "rep_detected cfg s1 t2" by blast
    from r have "rep_cooldown cfg < t2 - last_rep_time s1" by (simp add: rep_detected_iff)
    with detect_last_rep_time[OF d] have gap: "rep_cooldown cfg < t2 - last_rep_time s" by simp
    from a have rt: "rep_times cfg s (f # fs) = t2 # rep_times cfg s' fs" by (simp add: f st)
    from ih a have tl: "sorted_wrt (\<lambda>a b. rep_cooldown cfg < b - a) (t2 # rep_times cfg s' fs)"
      by simp
    then have later: "\<forall>b \<in> set (rep_times cfg s' fs). rep_cooldown cfg < b - t2" by simp
    have "\<forall>b \<in> set (rep_times cfg s' fs). rep_cooldown cfg < b - last_rep_time s"
    proof
      fix b assume "b \<in> set (rep_times cfg s' fs)"
      with later have "rep_cooldown cfg < b - t2" by simp
      with gap cd show "rep_cooldown cfg < b - last_rep_time s" by linarith
    qed
    with gap tl show ?thesis unfolding rt by simp
  qed
qed

text \<open>
  Claim C4.  One call of the pull-up \<open>analyze_pose\<close> raises the count by at most 1, and only
  if the cooldown since the last rep has elapsed and the last two entries of the change-log
  (as it stands after this frame's direction detection) are a down entry followed by an up
  entry whose displacements differ by more than \<open>min_movement_range\<close>.  On an increment the
  last-rep time becomes the current time and the log is emptied, so the very next frame
  cannot count again; without an increment the last-rep time is unchanged.  Along any run, the
  times of increments are pairwise more than \<open>rep_cooldown\<close> apart (for a cooldown that is
  not negative).
\<close>

theorem pullup_rep_gating:
  assumes "PullUp_analyze_pose cfg s kp t1 t2 = (s', n, label)"
  shows "(count s' = count s \<or> count s' = count s + 1)
     \<and> (count s' \<noteq> count s \<longrightarrow>
          rep_cooldown cfg < t2 - last_rep_time s
          \<and> (\<exists>ks s1 dir mag pre dt dx ut ux.
                kp = Some ks
                \<and> detect_direction_change cfg s (wrist_shoulder_diff_of ks) t1 = (s1, dir, mag)
                \<and> direction_history s1 = pre @ [(''down'', dt, dx), (''up'', ut, ux)]
                \<and> min_movement_range cfg < \<bar>ux - dx\<bar>)
          \<and> last_rep_time s' = t2
          \<and> direction_history s' = []
          \<and> (\<forall>kp' u1 u2. count (fst (PullUp_analyze_pose cfg s' kp' u1 u2)) = count s'))
     \<and> (count s' = count s \<longrightarrow> last_rep_time s' = last_rep_time s)
     \<and> (0 \<le> rep_cooldown cfg \<longrightarrow>
          sorted_wrt (\<lambda>a b. rep_cooldown cfg < b - a) (last_rep_time s # rep_times cfg s fs))"
proof (intro conjI impI)
  from PullUp_analyze_pose_cases[OF assms]
  show "count s' = count s \<or> count s' = count s + 1" by auto
next
  assume ne: "count s' \<noteq> count s"
  with PullUp_analyze_pose_cases[OF assms]
  have a: "last_rep_time s' = t2" "direction_history s' = []"
    and ex: "\<exists>ks s1 dir mag. kp = Some ks
                 \<and> detect_direction_change cfg s (wrist_shoulder_diff_of ks) t1 = (s1, dir, mag)
                 \<and> rep_detected cfg s1 t2" by auto
  from ex obtain ks s1 dir mag where kp: "kp = Some ks"
    and d: "detect_direction_change cfg s (wrist_shoulder_diff_of ks) t1 = (s1, dir, mag)"
    and r: "rep_detected cfg s1 t2" by blast
  from r obtain pre dt dx ut ux where
    gap1: "rep_cooldown cfg < t2 - last_rep_time s1"
    and dh: "direction_history s1 = pre @ [(''down'', dt, dx), (''up'', ut, ux)]"
    and rng: "min_movement_range cfg < \<bar>ux - dx\<bar>"
    unfolding rep_detected_iff by blast
  from gap1 detect_last_rep_time[OF d]
  show "rep_cooldown cfg < t2 - last_rep_time s" by simp
  from kp d dh rng
  show "\<exists>ks s1 dir mag pre dt dx ut ux.
                kp = Some ks
                \<and> detect_direction_change cfg s (wrist_shoulder_diff_of ks) t1 = (s1, dir, mag)
                \<and> direction_history s1 = pre @ [(''down'', dt, dx), (''up'', ut, ux)]
                \<and> min_movement_range cfg < \<bar>ux - dx\<bar>" by blast
  from a show "last_rep_time s' = t2" by simp
  from a show "direction_history s' = []" by simp
  from a show "\<forall>kp' u1 u2. count (fst (PullUp_analyze_pose cfg s' kp' u1 u2)) = count s'"
    by (simp add: no_rep_after_clear)
next
  assume "count s' = count s"
  with PullUp_analyze_pose_cases[OF assms] show "last_rep_time s' = last_rep_time s" by auto
next
  assume "0 \<le> rep_cooldown cfg"
  then show "sorted_wrt (\<lambda>a b. rep_cooldown cfg < b - a) (last_rep_time s # rep_times cfg s fs)"
    by (rule rep_times_spacing)
qed

lemma wrist_shoulder_diff_of_hang_frame: "wrist_shoulder_diff_of (hang_frame d) = d"
  by (simp add: wrist_shoulder_diff_of_def hang_frame_def Let_def jy_def)

lemma PullUp_analyze_pose_hang_frame:
  "min_confidence cfg \<le> 1 \<Longrightarrow>
   PullUp_analyze_pose cfg s (Some (hang_frame d)) t1 t2 =
     (case detect_direction_change cfg s d t1 of
        (s1, direction, magnitude) \<Rightarrow>
          (if rep_detected cfg s1 t2
           then (s1\<lparr>count := count s1 + 1, last_rep_time := t2, direction_history := [],
                    position := position_label direction\<rparr>,
                 count s1 + 1, position_label direction)
           else (s1\<lparr>position := position_label direction\<rparr>, count s1, position_label direction)))"
proof -
  assume c: "min_confidence cfg \<le> 1"
  have l: "length (hang_frame d) = 17" by (simp add: hang_frame_def Let_def)
  have m: "min (min (jconf (hang_frame d ! 5)) (jconf (hang_frame d ! 6)))
               (min (jconf (hang_frame d ! 9)) (jconf (hang_frame d ! 10))) = 1"
    by (simp add: hang_frame_def Let_def jconf_def)
  show ?thesis using c
    by (simp add: PullUp_analyze_pose_def l m wrist_shoulder_diff_of_hang_frame Let_def
        split: prod.splits)
qed

lemmas pullup_eval =
  detect_direction_change_def deque_append_def lastn_def movement_of_def new_direction_of_def
  update_consecutive_def confirmed_direction_of_def rep_detected_def position_label_def
  config_def PullUpCounter_init_def Let_def

lemma detect_third_up_frame: "detect_direction_change config
       (PullUpCounter_init\<lparr>position_history := [0, 0, 0, 0, 10, 20], consecutive_up_frames := 2\<rparr>)
       30 7
     = (PullUpCounter_init\<lparr>position_history := [0, 0, 0, 0, 10, 20, 30],
            consecutive_up_frames := 3, direction_history := [(''up'', 7, 30)],
            current_direction := ''up''\<rparr>, ''up'', 30)"
  by (simp add: pullup_eval)

lemma analyze_pose_tenth_frame: "PullUp_analyze_pose config
        (PullUpCounter_init\<lparr>position := ''lowering_down'',
           position_history := [0, 0, 0, 0, - 100, - 100, - 100, 100, 100],
           direction_history := [(''down'', 7, - 100)], current_direction := ''down'',
           consecutive_up_frames := 2\<rparr>)
        (Some (hang_frame 100)) 10 10
     = (PullUpCounter_init\<lparr>count := 1, position := ''pulling_up'',
           position_history := [0, 0, 0, 0, - 100, - 100, - 100, 100, 100, 100],
           last_rep_time := 10, current_direction := ''up'', consecutive_up_frames := 3\<rparr>,
        1, ''pulling_up'')"
  by (simp add: PullUp_analyze_pose_hang_frame pullup_eval)

lemma rep_times_two_cycles: "rep_times config PullUpCounter_init
     [(Some (hang_frame 0), 1, 1), (Some (hang_frame 0), 2, 2), (Some (hang_frame 0), 3, 3),
      (Some (hang_frame 0), 4, 4), (Some (hang_frame (- 100)), 5, 5),
      (Some (hang_frame (- 100)), 6, 6), (Some (hang_frame (- 100)), 7, 7),
      (Some (hang_frame 100), 8, 8), (Some (hang_frame 100), 9, 9),
      (Some (hang_frame 100), 10, 10), (Some (hang_frame (- 200)), 11, 11),
      (Some (hang_frame (- 200)), 12, 12), (Some (hang_frame (- 200)), 13, 13),
      (Some (hang_frame 200), 14, 14), (Some (hang_frame 200), 15, 15),
      (Some (hang_frame 200), 16, 16)] = [10, 16]"
  by (simp add: PullUp_analyze_pose_hang_frame pullup_eval)

lemma ArmCurl_calculate_angle_elbow:
  "0 \<le> d \<Longrightarrow> d \<le> 180 \<Longrightarrow>
   ArmCurl_calculate_angle (cos (d * pi / 180), sin (d * pi / 180), c1) (0, 0, c2) (1, 0, c3) = Some d"
proof -
  assume d: "0 \<le> d" "d \<le> 180"
  have r: "0 \<le> d * pi / 180" "d * pi / 180 \<le> pi" using d by (auto simp: field_simps)
  have c: "np_clip (cos (d * pi / 180)) (- 1) 1 = cos (d * pi / 180)"
    by (rule np_clip_id) simp_all
  show ?thesis
    using r d by (simp add: ArmCurl_calculate_angle_def jx_def jy_def linalg_norm_unit np_dot_def c
        Let_def epsilon_def linalg_norm_def arccos_cos np_degrees_def)
qed

lemma calculate_angle_elbow_conf:
  "0 \<le> d \<Longrightarrow> d \<le> 180 \<Longrightarrow>
   calculate_angle (cos (d * pi / 180), sin (d * pi / 180), c1) (0, 0, c2) (1, 0, c3) = Some d"
proof -
  assume d: "0 \<le> d" "d \<le> 180"
  have r: "0 \<le> d * pi / 180" "d * pi / 180 \<le> pi" using d by (auto simp: field_simps)
  have c: "np_clip (cos (d * pi / 180)) (- 1) 1 = cos (d * pi / 180)"
    by (rule np_clip_id) simp_all
  show ?thesis
    using r d by (simp add: calculate_angle_def jx_def jy_def linalg_norm_unit np_dot_def c
        Let_def epsilon_def linalg_norm_def arccos_cos np_degrees_def)
qed

lemma arms_frame_rows:
  "length (arms_frame r l cr cl) = 17"
  "arms_frame r l cr cl ! 5 = (cos (l * pi / 180), sin (l * pi / 180), cl)"
  "arms_frame r l cr cl ! 6 = (cos (r * pi / 180), sin (r * pi / 180), cr)"
  "arms_frame r l cr cl ! 7 = (0, 0, cl)"
  "arms_frame r l cr cl ! 8 = (0, 0, cr)"
  "arms_frame r l cr cl ! 9 = (1, 0, cl)"
  "arms_frame r l cr cl ! 10 = (1, 0, cr)"
  by (simp_all add: arms_frame_def Let_def)

lemma legs_frame_rows:
  "length (legs_frame r l cr cl) = 17"
  "legs_frame r l cr cl ! 11 = (cos (l * pi / 180), sin (l * pi / 180), cl)"
  "legs_frame r l cr cl ! 12 = (cos (r * pi / 180), sin (r * pi / 180), cr)"
  "legs_frame r l cr cl ! 13 = (0, 0, cl)"
  "legs_frame r l cr cl ! 14 = (0, 0, cr)"
  "legs_frame r l cr cl ! 15 = (1, 0, cl)"
  "legs_frame r l cr cl ! 16 = (1, 0, cr)"
  by (simp_all add: legs_frame_def Let_def)

lemma ArmCurl_get_best_arm_angle_arms_frame:
  "0 \<le> r \<Longrightarrow> r \<le> 180 \<Longrightarrow> 0 \<le> l \<Longrightarrow> l \<le> 180 \<Longrightarrow>
   ArmCurl_get_best_arm_angle (arms_frame r l cr cl)
     = (if cr \<ge> cl then (Some r, cr, ''Right'') else (Some l, cl, ''Left''))"
  by (simp add: ArmCurl_get_best_arm_angle_def arms_frame_rows ArmCurl_calculate_angle_elbow
      jconf_def Let_def)

lemma get_best_leg_angle_legs_frame:
  "0 \<le> r \<Longrightarrow> r \<le> 180 \<Longrightarrow> 0 \<le> l \<Longrightarrow> l \<le> 180 \<Longrightarrow> 3 / 10 \<le> cr \<Longrightarrow> 3 / 10 \<le> cl \<Longrightarrow>
   get_best_leg_angle (legs_frame r l cr cl)
     = (if \<bar>r - l\<bar> < 30 then (Some ((r + l) / 2), (cr + cl) / 2)
        else ((if cr \<ge> cl then Some r else Some l), max cr cl))"
  by (simp add: get_best_leg_angle_def legs_frame_rows calculate_angle_elbow_conf
      jconf_def Let_def)

text \<open>
  Claim C5, as stated, fails.  Arm-curl: both arms valid (90 and 180 degrees) with equal
  confidences, yet the working angle is the right arm's 90, not the average 135.  Squat: both
  legs valid (90 and 100 degrees) with confidences 1 and 0.5, which differ by more than 0.1,
  yet the working angle is the average 95, not the higher-confidence leg's 90.
\<close>

theorem working_angle_selection_counterexample:
  "ArmCurl_calculate_angle (arms_frame 90 180 1 1 ! 6) (arms_frame 90 180 1 1 ! 8)
       (arms_frame 90 180 1 1 ! 10) = Some 90
   \<and> ArmCurl_calculate_angle (arms_frame 90 180 1 1 ! 5) (arms_frame 90 180 1 1 ! 7)
       (arms_frame 90 180 1 1 ! 9) = Some 180
   \<and> \<bar>limb_confidence (arms_frame 90 180 1 1) 6 8 10 - limb_confidence (arms_frame 90 180 1 1) 5 7 9\<bar>
       < 1 / 10
   \<and> fst (ArmCurl_get_best_arm_angle (arms_frame 90 180 1 1)) = Some 90
   \<and> fst (ArmCurl_get_best_arm_angle (arms_frame 90 180 1 1)) \<noteq> Some ((90 + 180) / 2)
   \<and> calculate_angle (legs_frame 90 100 1 (1 / 2) ! 12) (legs_frame 90 100 1 (1 / 2) ! 14)
       (legs_frame 90 100 1 (1 / 2) ! 16) = Some 90
   \<and> calculate_angle (legs_frame 90 100 1 (1 / 2) ! 11) (legs_frame 90 100 1 (1 / 2) ! 13)
       (legs_frame 90 100 1 (1 / 2) ! 15) = Some 100
   \<and> \<not> \<bar>limb_confidence (legs_frame 90 100 1 (1 / 2)) 12 14 16
          - limb_confidence (legs_frame 90 100 1 (1 / 2)) 11 13 15\<bar> < 1 / 10
   \<and> limb_confidence (legs_frame 90 100 1 (1 / 2)) 12 14 16
        > limb_confidence (legs_frame 90 100 1 (1 / 2)) 11 13 15
   \<and> fst (get_best_leg_angle (legs_frame 90 100 1 (1 / 2))) = Some 95
   \<and> fst (get_best_leg_angle (legs_frame 90 100 1 (1 / 2))) \<noteq> Some 90"
proof -
  have a1: "ArmCurl_calculate_angle (arms_frame 90 180 1 1 ! 6) (arms_frame 90 180 1 1 ! 8)
       (arms_frame 90 180 1 1 ! 10) = Some 90"
    unfolding arms_frame_rows by (rule ArmCurl_calculate_angle_elbow) simp_all
  have a2: "ArmCurl_calculate_angle (arms_frame 90 180 1 1 ! 5) (arms_frame 90 180 1 1 ! 7)
       (arms_frame 90 180 1 1 ! 9) = Some 180"
    unfolding arms_frame_rows by (rule ArmCurl_calculate_angle_elbow) simp_all
  have a3: "ArmCurl_get_best_arm_angle (arms_frame 90 180 1 1) = (Some 90, 1, ''Right'')"
    by (subst ArmCurl_get_best_arm_angle_arms_frame) simp_all
  have l1: "calculate_angle (legs_frame 90 100 1 (1 / 2) ! 12) (legs_frame 90 100 1 (1 / 2) ! 14)
       (legs_frame 90 100 1 (1 / 2) ! 16) = Some 90"
    unfolding legs_frame_rows by (rule calculate_angle_elbow_conf) simp_all
  have l2: "calculate_angle (legs_frame 90 100 1 (1 / 2) ! 11) (legs_frame 90 100 1 (1 / 2) ! 13)
       (legs_frame 90 100 1 (1 / 2) ! 15) = Some 100"
    unfolding legs_frame_rows by (rule calculate_angle_elbow_conf) simp_all
  have l3: "get_best_leg_angle (legs_frame 90 100 1 (1 / 2)) = (Some 95, 3 / 4)"
    by (subst get_best_leg_angle_legs_frame) simp_all
  have c: "limb_confidence (arms_frame 90 180 1 1) 6 8 10 = 1"
    "limb_confidence (arms_frame 90 180 1 1) 5 7 9 = 1"
    "limb_confidence (legs_frame 90 100 1 (1 / 2)) 12 14 16 = 1"
    "limb_confidence (legs_frame 90 100 1 (1 / 2)) 11 13 15 = 1 / 2"
    by (simp_all add: limb_confidence_def arms_frame_rows legs_frame_rows jconf_def)
  show ?thesis
    unfolding a1 a2 a3 l1 l2 l3 c by simp
qed

lemma PullUp_low_confidence:
  assumes "kp = None \<or> kp = Some [] \<or>
           (\<exists>ks. kp = Some ks \<and> confidences_below ks [5, 6, 9, 10] (min_confidence cfg))"
  shows "\<exists>label. PullUp_analyze_pose cfg s kp t1 t2 = (s, count s, label)
           \<and> (label = ''no_person'' \<or> label = ''low_confidence'' \<or> label = ''error'')"
  using assms
  by (auto simp: PullUp_analyze_pose_def confidences_below_def Let_def min_less_iff_disj)

lemma ArmCurl_low_confidence:
  assumes "kp = None \<or> kp = Some [] \<or>
           (\<exists>ks. kp = Some ks \<and> confidences_below ks [5, 6, 7, 8, 9, 10] (1 / 2))"
  shows "ArmCurl_analyze_pose a kp = (a, count a, None)"
proof -
  have g: "\<And>ks. confidences_below ks [5, 6, 7, 8, 9, 10] (1 / 2) \<Longrightarrow>
            fst (ArmCurl_get_best_arm_angle ks) = None
            \<or> fst (snd (ArmCurl_get_best_arm_angle ks)) < 1 / 2"
    by (auto simp: ArmCurl_get_best_arm_angle_def confidences_below_def Let_def
        split: option.splits)
  have p: "\<And>acs. fst acs = None \<or> fst (snd acs) < 1 / 2 \<Longrightarrow>
             ArmCurl_process_angle a acs = (a, count a, None)"
    by (auto simp: ArmCurl_process_angle_def split: option.splits prod.splits)
  have pg: "\<And>ks. confidences_below ks [5, 6, 7, 8, 9, 10] (1 / 2) \<Longrightarrow>
             ArmCurl_process_angle a (ArmCurl_get_best_arm_angle ks) = (a, count a, None)"
    by (rule p[OF g])
  from assms show ?thesis
    by (auto simp: ArmCurl_analyze_pose_def pg)
qed

lemma PushUp_low_confidence:
  assumes "kp = None \<or> kp = Some [] \<or>
           (\<exists>ks. kp = Some ks \<and> confidences_below ks [5, 6, 7, 8, 9, 10] (MIN_CONFIDENCE p))"
  shows "PushUp_analyze_pose p kp = (p\<lparr>frame_count := frame_count p + 1\<rparr>, count p, None)"
proof -
  have g: "\<And>ks s. confidences_below ks [5, 6, 7, 8, 9, 10] (MIN_CONFIDENCE s) \<Longrightarrow>
            PushUp_get_best_arm_angle s ks = (None, 0)"
    by (auto simp: PushUp_get_best_arm_angle_def confidences_below_def Let_def)
  have q: "\<And>s c. PushUp_process_angle s (None, c) = (s, count s, None)"
    by (simp add: PushUp_process_angle_def)
  from assms show ?thesis
    by (auto simp: PushUp_analyze_pose_def Let_def g q)
qed

lemma Squat_low_confidence:
  assumes "kp = None \<or> kp = Some [] \<or>
           (\<exists>ks. kp = Some ks \<and> confidences_below ks [11, 12, 13, 14, 15, 16] (3 / 10))"
  shows "Squat_analyze_pose q kp = (q\<lparr>frame_count := frame_count q + 1\<rparr>, count q, None)"
proof -
  have g: "\<And>ks. confidences_below ks [11, 12, 13, 14, 15, 16] (3 / 10) \<Longrightarrow>
            get_best_leg_angle ks = (None, 0)"
    by (auto simp: get_best_leg_angle_def confidences_below_def Let_def)
  have p: "\<And>s c. Squat_process_angle s (None, c) = (s, count s, None)"
    by (simp add: Squat_process_angle_def)
  from assms show ?thesis
    by (auto simp: Squat_analyze_pose_def Let_def g p)
qed

text \<open>
  Claim C7, amended.  A frame with no person (absent or empty array) or with every relevant
  joint confidence below the floor leaves the pull-up and the arm-curl counter exactly as
  they were and returns the current count with a sentinel; the push-up and the squat counter
  return the current count with \<open>None\<close> and are unchanged except that \<open>frame_count\<close> has
  advanced by one.
\<close>

theorem low_confidence_frames_effect:
  "(kp = None \<or> kp = Some [] \<or>
      (\<exists>ks. kp = Some ks \<and> confidences_below ks [5, 6, 9, 10] (min_confidence cfg)) \<longrightarrow>
      (\<exists>label. PullUp_analyze_pose cfg u kp t1 t2 = (u, count u, label)
           \<and> (label = ''no_person'' \<or> label = ''low_confidence'' \<or> label = ''error'')))
   \<and> (kp = None \<or> kp = Some [] \<or>
      (\<exists>ks. kp = Some ks \<and> confidences_below ks [5, 6, 7, 8, 9, 10] (1 / 2)) \<longrightarrow>
      ArmCurl_analyze_pose a kp = (a, count a, None))
   \<and> (kp = None \<or> kp = Some [] \<or>
      (\<exists>ks. kp = Some ks \<and> confidences_below ks [5, 6, 7, 8, 9, 10] (MIN_CONFIDENCE p)) \<longrightarrow>
      PushUp_analyze_pose p kp = (p\<lparr>frame_count := frame_count p + 1\<rparr>, count p, None))
   \<and> (kp = None \<or> kp = Some [] \<or>
      (\<exists>ks. kp = Some ks \<and> confidences_below ks [11, 12, 13, 14, 15, 16] (3 / 10)) \<longrightarrow>
      Squat_analyze_pose q kp = (q\<lparr>frame_count := frame_count q + 1\<rparr>, count q, None))"
  using PullUp_low_confidence[of kp cfg u t1 t2] ArmCurl_low_confidence[of kp a]
    PushUp_low_confidence[of kp p] Squat_low_confidence[of kp q]
  by blast

theorem low_confidence_frames_effect_witness:
  "confidences_below (arms_frame 90 90 (1 / 10) (1 / 10)) [5, 6, 9, 10] (min_confidence config)
   \<and> PullUp_analyze_pose config PullUpCounter_init (Some (arms_frame 90 90 (1 / 10) (1 / 10))) 1 1
       = (PullUpCounter_init, 0, ''low_confidence'')
   \<and> confidences_below (arms_frame 90 90 (1 / 10) (1 / 10)) [5, 6, 7, 8, 9, 10] (1 / 2)
   \<and> ArmCurl_analyze_pose ArmCurlCounter_init (Some (arms_frame 90 90 (1 / 10) (1 / 10)))
       = (ArmCurlCounter_init, 0, None)
   \<and> confidences_below (arms_frame 90 90 (1 / 10) (1 / 10)) [5, 6, 7, 8, 9, 10]
        (MIN_CONFIDENCE PushUpCounter_init)
   \<and> PushUp_analyze_pose PushUpCounter_init (Some (arms_frame 90 90 (1 / 10) (1 / 10)))
       = (PushUpCounter_init\<lparr>frame_count := 1\<rparr>, 0, None)
   \<and> confidences_below (legs_frame 90 90 (1 / 10) (1 / 10)) [11, 12, 13, 14, 15, 16] (3 / 10)
   \<and> Squat_analyze_pose SquatCounter_init (Some (legs_frame 90 90 (1 / 10) (1 / 10)))
       = (SquatCounter_init\<lparr>frame_count := 1\<rparr>, 0, None)"
proof -
  let ?k = "Some (arms_frame 90 90 (1 / 10) (1 / 10))"
  let ?g = "Some (legs_frame 90 90 (1 / 10) (1 / 10))"
  have b1: "confidences_below (arms_frame 90 90 (1 / 10) (1 / 10)) [5, 6, 9, 10] (min_confidence config)"
    by (simp add: confidences_below_def arms_frame_def Let_def jconf_def config_def)
  have b2: "confidences_below (arms_frame 90 90 (1 / 10) (1 / 10)) [5, 6, 7, 8, 9, 10] (1 / 2)"
    by (simp add: confidences_below_def arms_frame_def Let_def jconf_def)
  have b3: "confidences_below (arms_frame 90 90 (1 / 10) (1 / 10)) [5, 6, 7, 8, 9, 10]
        (MIN_CONFIDENCE PushUpCounter_init)"
    by (simp add: confidences_below_def arms_frame_def Let_def jconf_def PushUpCounter_init_def)
  have b4: "confidences_below (legs_frame 90 90 (1 / 10) (1 / 10)) [11, 12, 13, 14, 15, 16] (3 / 10)"
    by (simp add: confidences_below_def legs_frame_def Let_def jconf_def)
  have c: "count PullUpCounter_init = 0" "count ArmCurlCounter_init = 0"
    "count PushUpCounter_init = 0" "count SquatCounter_init = 0"
    "frame_count PushUpCounter_init = 0" "frame_count SquatCounter_init = 0"
    by (simp_all add: PullUpCounter_init_def ArmCurlCounter_init_def PushUpCounter_init_def
        SquatCounter_init_def)
  have l: "PullUp_analyze_pose config PullUpCounter_init ?k 1 1
             = (PullUpCounter_init, 0, ''low_confidence'')"
    by (simp add: PullUp_analyze_pose_def arms_frame_def Let_def jconf_def config_def
        PullUpCounter_init_def)
  note t = low_confidence_frames_effect[of ?k config PullUpCounter_init 1 1 ArmCurlCounter_init
      PushUpCounter_init SquatCounter_init]
  note t' = low_confidence_frames_effect[of ?g config PullUpCounter_init 1 1 ArmCurlCounter_init
      PushUpCounter_init SquatCounter_init]
  from t b2 have r2: "ArmCurl_analyze_pose ArmCurlCounter_init ?k = (ArmCurlCounter_init, 0, None)"
    by (simp add: c)
  from t b3 have r3: "PushUp_analyze_pose PushUpCounter_init ?k
       = (PushUpCounter_init\<lparr>frame_count := 1\<rparr>, 0, None)"
    by (simp add: c)
  from t' b4 have r4: "Squat_analyze_pose SquatCounter_init ?g
       = (SquatCounter_init\<lparr>frame_count := 1\<rparr>, 0, None)"
    by (simp add: c)
  show ?thesis using b1 b2 b3 b4 l r2 r3 r4 by simp
qed

text \<open>
  Claim C7, as stated, fails: a frame without a person changes the push-up counter.  Its
  \<open>frame_count\<close> advances, so frames-in-state grows, and a following 100-degree frame moves the
  counter to DOWN where, without the empty frame, it stays UP.
\<close>

theorem low_confidence_frames_counterexample:
  "fst (PushUp_analyze_pose PushUpCounter_init None) \<noteq> PushUpCounter_init
   \<and> frame_count (fst (PushUp_analyze_pose PushUpCounter_init None))
       - last_state_change (fst (PushUp_analyze_pose PushUpCounter_init None))
     \<noteq> frame_count PushUpCounter_init - last_state_change PushUpCounter_init
   \<and> state (fst (PushUp_analyze_pose PushUpCounter_init (Some (elbow_frame 100)))) = UP
   \<and> state (fst (PushUp_analyze_pose (fst (PushUp_analyze_pose PushUpCounter_init None))
                    (Some (elbow_frame 100)))) = DOWN"
proof -
  have n: "PushUp_analyze_pose PushUpCounter_init None
            = (PushUpCounter_init\<lparr>frame_count := 1\<rparr>, 0, None)"
    by (simp add: PushUp_analyze_pose_def PushUpCounter_init_def)
  have m: "MIN_CONFIDENCE PushUpCounter_init \<le> 1"
          "MIN_CONFIDENCE (PushUpCounter_init\<lparr>frame_count := 1\<rparr>) \<le> 1"
    by (simp_all add: PushUpCounter_init_def)
  have a: "state (fst (PushUp_analyze_pose PushUpCounter_init (Some (elbow_frame 100)))) = UP"
    by (subst PushUp_analyze_pose_elbow_frame)
       (simp_all add: m PushUpCounter_init_def PushUp_process_angle_def smooth_angle_def
          update_state_and_count_def change_state_def deque_append_def lastn_def np_mean_def Let_def)
  have b: "state (fst (PushUp_analyze_pose (PushUpCounter_init\<lparr>frame_count := 1\<rparr>)
                    (Some (elbow_frame 100)))) = DOWN"
    by (subst PushUp_analyze_pose_elbow_frame)
       (simp_all add: m PushUpCounter_init_def PushUp_process_angle_def smooth_angle_def
          update_state_and_count_def change_state_def deque_append_def lastn_def np_mean_def Let_def)
  have ne: "PushUpCounter_init\<lparr>frame_count := 1\<rparr> \<noteq> PushUpCounter_init"
  proof
    assume "PushUpCounter_init\<lparr>frame_count := 1\<rparr> = PushUpCounter_init"
    then have "frame_count (PushUpCounter_init\<lparr>frame_count := 1\<rparr>) = frame_count PushUpCounter_init"
      by simp
    then show False by (simp add: PushUpCounter_init_def)
  qed
  show ?thesis using a b ne by (simp add: n) (simp add: PushUpCounter_init_def)
qed

lemma ArmCurl_analyze_pose_arms_frame:
  "0 \<le> r \<Longrightarrow> r \<le> 180 \<Longrightarrow> 0 \<le> l \<Longrightarrow> l \<le> 180 \<Longrightarrow>
   ArmCurl_analyze_pose a (Some (arms_frame r l cr cl))
     = ArmCurl_process_angle a (if cr \<ge> cl then (Some r, cr, ''Right'') else (Some l, cl, ''Left''))"
  using arms_frame_rows(1)[of r l cr cl]
  by (auto simp add: ArmCurl_analyze_pose_def ArmCurl_get_best_arm_angle_arms_frame)

text \<open>
  Claim C6, as stated, fails: on the first valid frame (one sample in the window of 5) the
  arm-curl counter returns the raw angle of the frame, 90, not \<open>None\<close>.
\<close>

theorem armcurl_partial_window_counterexample:
  "length (armcurl_angle_history
            (fst (ArmCurl_analyze_pose ArmCurlCounter_init (Some (arms_frame 90 90 1 1))))) < 5
   \<and> ArmCurl_analyze_pose ArmCurlCounter_init (Some (arms_frame 90 90 1 1))
       = (ArmCurlCounter_init\<lparr>armcurl_angle_history := [90]\<rparr>, 0, Some 90)
   \<and> snd (snd (ArmCurl_analyze_pose ArmCurlCounter_init (Some (arms_frame 90 90 1 1)))) \<noteq> None"
proof -
  have "ArmCurl_analyze_pose ArmCurlCounter_init (Some (arms_frame 90 90 1 1))
       = (ArmCurlCounter_init\<lparr>armcurl_angle_history := [90]\<rparr>, 0, Some 90)"
    by (subst ArmCurl_analyze_pose_arms_frame)
       (simp_all add: ArmCurl_process_angle_def ArmCurlCounter_init_def deque_append_def Let_def)
  then show ?thesis by simp
qed

lemma deque_append_5_short:
  "length h < 4 \<Longrightarrow> deque_append 5 h x = h @ [x] \<and> length (deque_append 5 h x) \<noteq> 5"
  by (simp add: deque_append_def Let_def)

lemma deque_append_5_full:
  "length h = 4 \<or> length h = 5 \<Longrightarrow>
     deque_append 5 h x = lastn 4 h @ [x] \<and> length (deque_append 5 h x) = 5"
  by (auto simp add: deque_append_def lastn_def Let_def)

text \<open>
  Claim C6, amended.  For a frame that yields a valid angle with confidence at least 0.5:
  while the window holds fewer than 5 samples after the append, \<open>analyze_pose\<close> returns the
  current count with the raw angle of the frame and changes nothing but the window; once the
  window holds 5 samples it returns their arithmetic mean and runs the state machine on that
  mean.
\<close>

theorem armcurl_window_gating:
  assumes ks: "ks \<noteq> []"
      and best: "ArmCurl_get_best_arm_angle ks = (Some angle, confidence, side)"
      and conf: "1 / 2 \<le> confidence"
  shows "(length (armcurl_angle_history a) < 4 \<longrightarrow>
            ArmCurl_analyze_pose a (Some ks)
              = (a\<lparr>armcurl_angle_history := armcurl_angle_history a @ [angle]\<rparr>, count a, Some angle))
       \<and> (length (armcurl_angle_history a) = 4 \<or> length (armcurl_angle_history a) = 5 \<longrightarrow>
            (let h = lastn 4 (armcurl_angle_history a) @ [angle];
                 avg = sum_list h / 5;
                 a1 = a\<lparr>armcurl_angle_history := h\<rparr>
             in length h = 5
                \<and> ArmCurl_analyze_pose a (Some ks) =
                    (if avg < armcurl_up_threshold a \<and> armcurl_state a = ''down''
                     then (a1\<lparr>armcurl_state := ''up''\<rparr>, count a, Some avg)
                     else if avg > armcurl_down_threshold a \<and> armcurl_state a = ''up''
                     then (a1\<lparr>count := count a + 1, armcurl_state := ''down''\<rparr>, count a + 1, Some avg)
                     else (a1, count a, Some avg))))"
proof (intro conjI impI)
  assume s: "length (armcurl_angle_history a) < 4"
  from deque_append_5_short[OF s, of angle] ks best conf s
  show "ArmCurl_analyze_pose a (Some ks)
          = (a\<lparr>armcurl_angle_history := armcurl_angle_history a @ [angle]\<rparr>, count a, Some angle)"
    by (simp add: ArmCurl_analyze_pose_def ArmCurl_process_angle_def Let_def)
next
  assume f: "length (armcurl_angle_history a) = 4 \<or> length (armcurl_angle_history a) = 5"
  from deque_append_5_full[OF f, of angle]
  have d: "deque_append 5 (armcurl_angle_history a) angle = lastn 4 (armcurl_angle_history a) @ [angle]"
    and l: "length (lastn 4 (armcurl_angle_history a) @ [angle]) = 5" by auto
  have m: "np_mean (lastn 4 (armcurl_angle_history a) @ [angle])
           = sum_list (lastn 4 (armcurl_angle_history a) @ [angle]) / 5"
    unfolding np_mean_def l by simp
  show "let h = lastn 4 (armcurl_angle_history a) @ [angle];
                 avg = sum_list h / 5;
                 a1 = a\<lparr>armcurl_angle_history := h\<rparr>
             in length h = 5
                \<and> ArmCurl_analyze_pose a (Some ks) =
                    (if avg < armcurl_up_threshold a \<and> armcurl_state a = ''down''
                     then (a1\<lparr>armcurl_state := ''up''\<rparr>, count a, Some avg)
                     else if avg > armcurl_down_threshold a \<and> armcurl_state a = ''up''
                     then (a1\<lparr>count := count a + 1, armcurl_state := ''down''\<rparr>, count a + 1, Some avg)
                     else (a1, count a, Some avg))"
    using ks best conf l
    by (simp add: ArmCurl_analyze_pose_def ArmCurl_process_angle_def Let_def d m del: length_append)
qed

theorem armcurl_window_gating_witness:
  "arms_frame 80 80 1 1 \<noteq> []
   \<and> ArmCurl_get_best_arm_angle (arms_frame 80 80 1 1) = (Some 80, 1, ''Right'')
   \<and> (1 / 2 :: real) \<le> 1
   \<and> ArmCurl_analyze_pose ArmCurlCounter_init (Some (arms_frame 80 80 1 1))
       = (ArmCurlCounter_init\<lparr>armcurl_angle_history := [80]\<rparr>, 0, Some 80)
   \<and> ArmCurl_analyze_pose (ArmCurlCounter_init\<lparr>armcurl_angle_history := [80, 80, 80, 80]\<rparr>)
         (Some (arms_frame 80 80 1 1))
       = (ArmCurlCounter_init\<lparr>armcurl_angle_history := [80, 80, 80, 80, 80], armcurl_state := ''up''\<rparr>,
          0, Some 80)"
proof -
  have k: "arms_frame 80 80 1 1 \<noteq> []" by (simp add: arms_frame_def Let_def)
  have b: "ArmCurl_get_best_arm_angle (arms_frame 80 80 1 1) = (Some 80, 1, ''Right'')"
    by (subst ArmCurl_get_best_arm_angle_arms_frame) simp_all
  have c: "(1 / 2 :: real) \<le> 1" by simp
  note t1 = armcurl_window_gating[OF k b c, of ArmCurlCounter_init]
  note t2 = armcurl_window_gating[OF k b c,
      of "ArmCurlCounter_init\<lparr>armcurl_angle_history := [80, 80, 80, 80]\<rparr>"]
  from t1 have r1: "ArmCurl_analyze_pose ArmCurlCounter_init (Some (arms_frame 80 80 1 1))
       = (ArmCurlCounter_init\<lparr>armcurl_angle_history := [80]\<rparr>, 0, Some 80)"
    by (simp add: ArmCurlCounter_init_def)
  from t2 have r2: "ArmCurl_analyze_pose (ArmCurlCounter_init\<lparr>armcurl_angle_history := [80, 80, 80, 80]\<rparr>)
         (Some (arms_frame 80 80 1 1))
       = (ArmCurlCounter_init\<lparr>armcurl_angle_history := [80, 80, 80, 80, 80], armcurl_state := ''up''\<rparr>,
          0, Some 80)"
    by (simp add: ArmCurlCounter_init_def lastn_def Let_def)
  show ?thesis using k b c r1 r2 by simp
qed

theorem detect_direction_change_confirmation_witness:
  "0 \<le> consecutive_up_frames
          (PullUpCounter_init\<lparr>position_history := [0, 0, 0, 0, 10, 20], consecutive_up_frames := 2\<rparr>)
   \<and> 0 \<le> consecutive_down_frames
          (PullUpCounter_init\<lparr>position_history := [0, 0, 0, 0, 10, 20], consecutive_up_frames := 2\<rparr>)
   \<and> detect_direction_change config
       (PullUpCounter_init\<lparr>position_history := [0, 0, 0, 0, 10, 20], consecutive_up_frames := 2\<rparr>)
       30 7
     = (PullUpCounter_init\<lparr>position_history := [0, 0, 0, 0, 10, 20, 30],
            consecutive_up_frames := 3, direction_history := [(''up'', 7, 30)],
            current_direction := ''up''\<rparr>, ''up'', 30)
   \<and> new_direction_of config (movement_of (deque_append 30 [0, 0, 0, 0, 10, 20] 30)) = ''up''
   \<and> min_consecutive_frames config = 3
   \<and> current_direction PullUpCounter_init = ''stable''"
proof -
  let ?s = "PullUpCounter_init\<lparr>position_history := [0, 0, 0, 0, 10, 20], consecutive_up_frames := 2\<rparr>"
  have h1: "0 \<le> consecutive_up_frames ?s" by simp
  have h2: "0 \<le> consecutive_down_frames ?s" by (simp add: PullUpCounter_init_def)
  note t = detect_direction_change_confirmation[OF h1 h2 detect_third_up_frame]
  have nd: "new_direction_of config (movement_of (deque_append 30 [0, 0, 0, 0, 10, 20] 30)) = ''up''"
    using t by (simp add: pullup_eval)
  show ?thesis using h1 h2 detect_third_up_frame nd
    by (simp add: config_def PullUpCounter_init_def)
qed

theorem pullup_rep_gating_witness:
  "PullUp_analyze_pose config
        (PullUpCounter_init\<lparr>position := ''lowering_down'',
           position_history := [0, 0, 0, 0, - 100, - 100, - 100, 100, 100],
           direction_history := [(''down'', 7, - 100)], current_direction := ''down'',
           consecutive_up_frames := 2\<rparr>)
        (Some (hang_frame 100)) 10 10
     = (PullUpCounter_init\<lparr>count := 1, position := ''pulling_up'',
           position_history := [0, 0, 0, 0, - 100, - 100, - 100, 100, 100, 100],
           last_rep_time := 10, current_direction := ''up'', consecutive_up_frames := 3\<rparr>,
        1, ''pulling_up'')
   \<and> direction_history (PullUpCounter_init\<lparr>count := 1, position := ''pulling_up'',
           position_history := [0, 0, 0, 0, - 100, - 100, - 100, 100, 100, 100],
           last_rep_time := 10, current_direction := ''up'', consecutive_up_frames := 3\<rparr>) = []
   \<and> rep_cooldown config < 10 - last_rep_time PullUpCounter_init
   \<and> 0 \<le> rep_cooldown config
   \<and> sorted_wrt (\<lambda>a b. rep_cooldown config < b - a)
       (0 # rep_times config PullUpCounter_init
     [(Some (hang_frame 0), 1, 1), (Some (hang_frame 0), 2, 2), (Some (hang_frame 0), 3, 3),
      (Some (hang_frame 0), 4, 4), (Some (hang_frame (- 100)), 5, 5),
      (Some (hang_frame (- 100)), 6, 6), (Some (hang_frame (- 100)), 7, 7),
      (Some (hang_frame 100), 8, 8), (Some (hang_frame 100), 9, 9),
      (Some (hang_frame 100), 10, 10), (Some (hang_frame (- 200)), 11, 11),
      (Some (hang_frame (- 200)), 12, 12), (Some (hang_frame (- 200)), 13, 13),
      (Some (hang_frame 200), 14, 14), (Some (hang_frame 200), 15, 15),
      (Some (hang_frame 200), 16, 16)])"
proof -
  let ?fs = "[(Some (hang_frame 0), 1, 1), (Some (hang_frame 0), 2, 2), (Some (hang_frame 0), 3, 3),
      (Some (hang_frame 0), 4, 4), (Some (hang_frame (- 100)), 5, 5),
      (Some (hang_frame (- 100)), 6, 6), (Some (hang_frame (- 100)), 7, 7),
      (Some (hang_frame 100), 8, 8), (Some (hang_frame 100), 9, 9),
      (Some (hang_frame 100), 10, 10), (Some (hang_frame (- 200)), 11, 11),
      (Some (hang_frame (- 200)), 12, 12), (Some (hang_frame (- 200)), 13, 13),
      (Some (hang_frame 200), 14, 14), (Some (hang_frame 200), 15, 15),
      (Some (hang_frame 200), 16, 16)] :: (keypoints \<times> real \<times> real) list"
  have cd: "0 \<le> rep_cooldown config" by (simp add: config_def)
  have gap: "rep_cooldown config < 10 - last_rep_time PullUpCounter_init"
    by (simp add: config_def PullUpCounter_init_def)
  have z: "last_rep_time PullUpCounter_init = 0" by (simp add: PullUpCounter_init_def)
  have np: "PullUp_analyze_pose config PullUpCounter_init None 0 0
              = (PullUpCounter_init, count PullUpCounter_init, ''no_person'')"
    by (simp add: PullUp_analyze_pose_def)
  note t1 = pullup_rep_gating[OF analyze_pose_tenth_frame, of "[]"]
  note t2 = pullup_rep_gating[OF np, of ?fs]
  from t2 cd have "sorted_wrt (\<lambda>a b. rep_cooldown config < b - a)
       (last_rep_time PullUpCounter_init # rep_times config PullUpCounter_init ?fs)" by blast
  then have sp: "sorted_wrt (\<lambda>a b. rep_cooldown config < b - a)
       (0 # rep_times config PullUpCounter_init ?fs)" by (simp only: z)
  from t1 have cl: "direction_history (PullUpCounter_init\<lparr>count := 1, position := ''pulling_up'',
           position_history := [0, 0, 0, 0, - 100, - 100, - 100, 100, 100, 100],
           last_rep_time := 10, current_direction := ''up'', consecutive_up_frames := 3\<rparr>) = []"
    by (simp add: PullUpCounter_init_def)
  show ?thesis by (intro conjI analyze_pose_tenth_frame cl gap cd sp)
qed

lemma PushUp_selection_both:
  "11 \<le> length ks \<Longrightarrow>
   calculate_angle (ks ! 6) (ks ! 8) (ks ! 10) = Some r
     \<and> MIN_CONFIDENCE p \<le> limb_confidence ks 6 8 10
     \<and> calculate_angle (ks ! 5) (ks ! 7) (ks ! 9) = Some l
     \<and> MIN_CONFIDENCE p \<le> limb_confidence ks 5 7 9 \<Longrightarrow>
   PushUp_get_best_arm_angle p ks =
         (if \<bar>limb_confidence ks 6 8 10 - limb_confidence ks 5 7 9\<bar> < 1 / 10
          then (Some ((r + l) / 2), (limb_confidence ks 6 8 10 + limb_confidence ks 5 7 9) / 2)
          else if limb_confidence ks 6 8 10 > limb_confidence ks 5 7 9
          then (Some r, limb_confidence ks 6 8 10)
          else (Some l, limb_confidence ks 5 7 9))"
  by (auto simp add: PushUp_get_best_arm_angle_def limb_confidence_def Let_def)

lemma PushUp_selection_right:
  "11 \<le> length ks \<Longrightarrow>
   calculate_angle (ks ! 6) (ks ! 8) (ks ! 10) = Some r
     \<and> MIN_CONFIDENCE p \<le> limb_confidence ks 6 8 10
     \<and> (calculate_angle (ks ! 5) (ks ! 7) (ks ! 9) = None \<or> limb_confidence ks 5 7 9 < MIN_CONFIDENCE p) \<Longrightarrow>
   PushUp_get_best_arm_angle p ks = (Some r, limb_confidence ks 6 8 10)"
  by (auto simp add: PushUp_get_best_arm_angle_def limb_confidence_def Let_def)

lemma PushUp_selection_left:
  "11 \<le> length ks \<Longrightarrow>
   (calculate_angle (ks ! 6) (ks ! 8) (ks ! 10) = None \<or> limb_confidence ks 6 8 10 < MIN_CONFIDENCE p)
     \<and> calculate_angle (ks ! 5) (ks ! 7) (ks ! 9) = Some l
     \<and> MIN_CONFIDENCE p \<le> limb_confidence ks 5 7 9 \<Longrightarrow>
   PushUp_get_best_arm_angle p ks = (Some l, limb_confidence ks 5 7 9)"
  by (auto simp add: PushUp_get_best_arm_angle_def limb_confidence_def Let_def)

lemma PushUp_selection_none:
  "11 \<le> length ks \<Longrightarrow>
   (calculate_angle (ks ! 6) (ks ! 8) (ks ! 10) = None \<or> limb_confidence ks 6 8 10 < MIN_CONFIDENCE p)
     \<and> (calculate_angle (ks ! 5) (ks ! 7) (ks ! 9) = None \<or> limb_confidence ks 5 7 9 < MIN_CONFIDENCE p) \<Longrightarrow>
   PushUp_get_best_arm_angle p ks = (None, 0)"
  by (auto simp add: PushUp_get_best_arm_angle_def limb_confidence_def Let_def)

lemma ArmCurl_selection_both:
  "11 \<le> length ks \<Longrightarrow>
   ArmCurl_calculate_angle (ks ! 6) (ks ! 8) (ks ! 10) = Some r
     \<and> ArmCurl_calculate_angle (ks ! 5) (ks ! 7) (ks ! 9) = Some l \<Longrightarrow>
   ArmCurl_get_best_arm_angle ks =
         (if limb_confidence ks 6 8 10 \<ge> limb_confidence ks 5 7 9
          then (Some r, limb_confidence ks 6 8 10, ''Right'')
          else (Some l, limb_confidence ks 5 7 9, ''Left''))"
  by (auto simp add: ArmCurl_get_best_arm_angle_def limb_confidence_def Let_def)

lemma ArmCurl_selection_right:
  "11 \<le> length ks \<Longrightarrow>
   ArmCurl_calculate_angle (ks ! 6) (ks ! 8) (ks ! 10) = Some r
     \<and> ArmCurl_calculate_angle (ks ! 5) (ks ! 7) (ks ! 9) = None \<Longrightarrow>
   ArmCurl_get_best_arm_angle ks = (Some r, limb_confidence ks 6 8 10, ''Right'')"
  by (auto simp add: ArmCurl_get_best_arm_angle_def limb_confidence_def Let_def)

lemma ArmCurl_selection_left:
  "11 \<le> length ks \<Longrightarrow>
   ArmCurl_calculate_angle (ks ! 6) (ks ! 8) (ks ! 10) = None
     \<and> ArmCurl_calculate_angle (ks ! 5) (ks ! 7) (ks ! 9) = Some l \<Longrightarrow>
   ArmCurl_get_best_arm_angle ks = (Some l, limb_confidence ks 5 7 9, ''Left'')"
  by (auto simp add: ArmCurl_get_best_arm_angle_def limb_confidence_def Let_def)

lemma ArmCurl_selection_none:
  "11 \<le> length ks \<Longrightarrow>
   ArmCurl_calculate_angle (ks ! 6) (ks ! 8) (ks ! 10) = None
     \<and> ArmCurl_calculate_angle (ks ! 5) (ks ! 7) (ks ! 9) = None \<Longrightarrow>
   ArmCurl_get_best_arm_angle ks = (None, 0, ''None'')"
  by (auto simp add: ArmCurl_get_best_arm_angle_def limb_confidence_def Let_def)

lemma Squat_selection_both:
  "17 \<le> length ks \<Longrightarrow>
   calculate_angle (ks ! 12) (ks ! 14) (ks ! 16) = Some r
     \<and> calculate_angle (ks ! 11) (ks ! 13) (ks ! 15) = Some l
     \<and> 3 / 10 \<le> limb_confidence ks 12 14 16
     \<and> 3 / 10 \<le> limb_confidence ks 11 13 15 \<Longrightarrow>
   get_best_leg_angle ks =
         (if \<bar>r - l\<bar> < 30
          then (Some ((r + l) / 2), (limb_confidence ks 12 14 16 + limb_confidence ks 11 13 15) / 2)
          else ((if limb_confidence ks 12 14 16 \<ge> limb_confidence ks 11 13 15 then Some r else Some l),
                max (limb_confidence ks 12 14 16) (limb_confidence ks 11 13 15)))"
  by (auto simp add: get_best_leg_angle_def limb_confidence_def Let_def)

lemma Squat_selection_right:
  "17 \<le> length ks \<Longrightarrow>
   3 / 10 \<le> limb_confidence ks 12 14 16
     \<and> limb_confidence ks 11 13 15 < 3 / 10 \<Longrightarrow>
   get_best_leg_angle ks = (calculate_angle (ks ! 12) (ks ! 14) (ks ! 16), limb_confidence ks 12 14 16)"
  by (auto simp add: get_best_leg_angle_def limb_confidence_def Let_def)

lemma Squat_selection_left:
  "17 \<le> length ks \<Longrightarrow>
   limb_confidence ks 12 14 16 < 3 / 10
     \<and> 3 / 10 \<le> limb_confidence ks 11 13 15 \<Longrightarrow>
   get_best_leg_angle ks = (calculate_angle (ks ! 11) (ks ! 13) (ks ! 15), limb_confidence ks 11 13 15)"
  by (auto simp add: get_best_leg_angle_def limb_confidence_def Let_def)

lemma Squat_selection_none:
  "17 \<le> length ks \<Longrightarrow>
   limb_confidence ks 12 14 16 < 3 / 10
     \<and> limb_confidence ks 11 13 15 < 3 / 10 \<Longrightarrow>
   get_best_leg_angle ks = (None, 0)"
  by (auto simp add: get_best_leg_angle_def limb_confidence_def Let_def)

lemma PushUp_gate:
  "fst (PushUp_get_best_arm_angle s ks) = None
     \<or> snd (PushUp_get_best_arm_angle s ks) < MIN_CONFIDENCE s \<Longrightarrow>
   PushUp_analyze_pose s (Some ks) = (s\<lparr>frame_count := frame_count s + 1\<rparr>, count s, None)"
proof -
  assume a: "fst (PushUp_get_best_arm_angle s ks) = None
     \<or> snd (PushUp_get_best_arm_angle s ks) < MIN_CONFIDENCE s"
  have e: "PushUp_get_best_arm_angle (s\<lparr>frame_count := frame_count s + 1\<rparr>) ks
           = PushUp_get_best_arm_angle s ks"
    by (simp add: PushUp_get_best_arm_angle_def)
  obtain an c where g: "PushUp_get_best_arm_angle s ks = (an, c)"
    by (cases "PushUp_get_best_arm_angle s ks") auto
  with a have "an = None \<or> c < MIN_CONFIDENCE s" by simp
  then show ?thesis
    by (auto simp add: PushUp_analyze_pose_def Let_def e g PushUp_process_angle_def)
qed

lemma ArmCurl_gate:
  "fst (ArmCurl_get_best_arm_angle ks) = None
     \<or> fst (snd (ArmCurl_get_best_arm_angle ks)) < 1 / 2 \<Longrightarrow>
   ArmCurl_analyze_pose a (Some ks) = (a, count a, None)"
proof -
  assume h: "fst (ArmCurl_get_best_arm_angle ks) = None
     \<or> fst (snd (ArmCurl_get_best_arm_angle ks)) < 1 / 2"
  obtain an c sd where g: "ArmCurl_get_best_arm_angle ks = (an, c, sd)"
    by (cases "ArmCurl_get_best_arm_angle ks") auto
  with h have "an = None \<or> c < 1 / 2" by simp
  then show ?thesis
    by (auto simp add: ArmCurl_analyze_pose_def g ArmCurl_process_angle_def split: option.splits)
qed

lemma Squat_gate:
  "fst (get_best_leg_angle ks) = None \<or> snd (get_best_leg_angle ks) < 3 / 10 \<Longrightarrow>
   Squat_analyze_pose q (Some ks) = (q\<lparr>frame_count := frame_count q + 1\<rparr>, count q, None)"
proof -
  assume h: "fst (get_best_leg_angle ks) = None \<or> snd (get_best_leg_angle ks) < 3 / 10"
  obtain an c where g: "get_best_leg_angle ks = (an, c)"
    by (cases "get_best_leg_angle ks") auto
  with h have "an = None \<or> c < 3 / 10" by simp
  then show ?thesis
    by (auto simp add: Squat_analyze_pose_def Let_def g Squat_process_angle_def split: option.splits)
qed

text \<open>
  Claim C5, amended.  Push-up: with both arms valid (confidence at least the floor and a
  defined angle) the working angle is the average when the confidences differ by less than
  0.1, otherwise the angle of the arm with the higher confidence; with one arm valid, that
  arm; with none, no angle.  Arm-curl: with both angles defined, the angle of the arm whose
  confidence is higher (the right arm on a tie), never the average; with one defined, that
  one.  Squat: with both confidences at least 0.3 and both angles defined, the average when
  the angles differ by less than 30 degrees, otherwise the angle of the leg whose confidence
  is higher (the right leg on a tie); with one confidence at least 0.3, that leg's angle.
  Whenever no angle is selected or the selected confidence is below the floor,
  \<open>analyze_pose\<close> returns the current count with \<open>None\<close>, and count, state and window are
  unchanged (the push-up and squat counters having advanced \<open>frame_count\<close> by one).
\<close>

theorem working_angle_selection:
  "(11 \<le> length ks \<longrightarrow>
   (calculate_angle (ks ! 6) (ks ! 8) (ks ! 10) = Some r
     \<and> MIN_CONFIDENCE p \<le> limb_confidence ks 6 8 10
     \<and> calculate_angle (ks ! 5) (ks ! 7) (ks ! 9) = Some l
     \<and> MIN_CONFIDENCE p \<le> limb_confidence ks 5 7 9 \<longrightarrow>
       PushUp_get_best_arm_angle p ks =
         (if \<bar>limb_confidence ks 6 8 10 - limb_confidence ks 5 7 9\<bar> < 1 / 10
          then (Some ((r + l) / 2), (limb_confidence ks 6 8 10 + limb_confidence ks 5 7 9) / 2)
          else if limb_confidence ks 6 8 10 > limb_confidence ks 5 7 9
          then (Some r, limb_confidence ks 6 8 10)
          else (Some l, limb_confidence ks 5 7 9)))
      \<and> (calculate_angle (ks ! 6) (ks ! 8) (ks ! 10) = Some r \<and> MIN_CONFIDENCE p \<le> limb_confidence ks 6 8 10 \<and> (calculate_angle (ks ! 5) (ks ! 7) (ks ! 9) = None \<or> limb_confidence ks 5 7 9 < MIN_CONFIDENCE p) \<longrightarrow>
       PushUp_get_best_arm_angle p ks = (Some r, limb_confidence ks 6 8 10))
      \<and> ((calculate_angle (ks ! 6) (ks ! 8) (ks ! 10) = None \<or> limb_confidence ks 6 8 10 < MIN_CONFIDENCE p) \<and> calculate_angle (ks ! 5) (ks ! 7) (ks ! 9) = Some l \<and> MIN_CONFIDENCE p \<le> limb_confidence ks 5 7 9 \<longrightarrow>
       PushUp_get_best_arm_angle p ks = (Some l, limb_confidence ks 5 7 9))
      \<and> ((calculate_angle (ks ! 6) (ks ! 8) (ks ! 10) = None \<or> limb_confidence ks 6 8 10 < MIN_CONFIDENCE p) \<and> (calculate_angle (ks ! 5) (ks ! 7) (ks ! 9) = None \<or> limb_confidence ks 5 7 9 < MIN_CONFIDENCE p) \<longrightarrow>
       PushUp_get_best_arm_angle p ks = (None, 0))
      \<and> (ArmCurl_calculate_angle (ks ! 6) (ks ! 8) (ks ! 10) = Some r \<and> ArmCurl_calculate_angle (ks ! 5) (ks ! 7) (ks ! 9) = Some l \<longrightarrow>
       ArmCurl_get_best_arm_angle ks =
         (if limb_confidence ks 6 8 10 \<ge> limb_confidence ks 5 7 9
          then (Some r, limb_confidence ks 6 8 10, ''Right'')
          else (Some l, limb_confidence ks 5 7 9, ''Left'')))
      \<and> (ArmCurl_calculate_angle (ks ! 6) (ks ! 8) (ks ! 10) = Some r \<and> ArmCurl_calculate_angle (ks ! 5) (ks ! 7) (ks ! 9) = None \<longrightarrow>
       ArmCurl_get_best_arm_angle ks = (Some r, limb_confidence ks 6 8 10, ''Right''))
      \<and> (ArmCurl_calculate_angle (ks ! 6) (ks ! 8) (ks ! 10) = None \<and> ArmCurl_calculate_angle (ks ! 5) (ks ! 7) (ks ! 9) = Some l \<longrightarrow>
       ArmCurl_get_best_arm_angle ks = (Some l, limb_confidence ks 5 7 9, ''Left''))
      \<and> (ArmCurl_calculate_angle (ks ! 6) (ks ! 8) (ks ! 10) = None \<and> ArmCurl_calculate_angle (ks ! 5) (ks ! 7) (ks ! 9) = None \<longrightarrow>
       ArmCurl_get_best_arm_angle ks = (None, 0, ''None'')))
   \<and> (17 \<le> length ks \<longrightarrow>
   (calculate_angle (ks ! 12) (ks ! 14) (ks ! 16) = Some r
     \<and> calculate_angle (ks ! 11) (ks ! 13) (ks ! 15) = Some l
     \<and> 3 / 10 \<le> limb_confidence ks 12 14 16
     \<and> 3 / 10 \<le> limb_confidence ks 11 13 15 \<longrightarrow>
       get_best_leg_angle ks =
         (if \<bar>r - l\<bar> < 30
          then (Some ((r + l) / 2), (limb_confidence ks 12 14 16 + limb_confidence ks 11 13 15) / 2)
          else ((if limb_confidence ks 12 14 16 \<ge> limb_confidence ks 11 13 15 then Some r else Some l),
                max (limb_confidence ks 12 14 16) (limb_confidence ks 11 13 15))))
      \<and> (3 / 10 \<le> limb_confidence ks 12 14 16 \<and> limb_confidence ks 11 13 15 < 3 / 10 \<longrightarrow>
       get_best_leg_angle ks = (calculate_angle (ks ! 12) (ks ! 14) (ks ! 16), limb_confidence ks 12 14 16))
      \<and> (limb_confidence ks 12 14 16 < 3 / 10 \<and> 3 / 10 \<le> limb_confidence ks 11 13 15 \<longrightarrow>
       get_best_leg_angle ks = (calculate_angle (ks ! 11) (ks ! 13) (ks ! 15), limb_confidence ks 11 13 15))
      \<and> (limb_confidence ks 12 14 16 < 3 / 10 \<and> limb_confidence ks 11 13 15 < 3 / 10 \<longrightarrow>
       get_best_leg_angle ks = (None, 0)))
   \<and> (fst (PushUp_get_best_arm_angle p ks) = None \<or> snd (PushUp_get_best_arm_angle p ks) < MIN_CONFIDENCE p \<longrightarrow>
       PushUp_analyze_pose p (Some ks) = (p\<lparr>frame_count := frame_count p + 1\<rparr>, count p, None))
   \<and> (fst (ArmCurl_get_best_arm_angle ks) = None \<or> fst (snd (ArmCurl_get_best_arm_angle ks)) < 1 / 2 \<longrightarrow>
       ArmCurl_analyze_pose a (Some ks) = (a, count a, None))
   \<and> (fst (get_best_leg_angle ks) = None \<or> snd (get_best_leg_angle ks) < 3 / 10 \<longrightarrow>
       Squat_analyze_pose q (Some ks) = (q\<lparr>frame_count := frame_count q + 1\<rparr>, count q, None))"
  apply (intro conjI impI)
  subgoal by (rule PushUp_selection_both)
  subgoal by (rule PushUp_selection_right)
  subgoal by (rule PushUp_selection_left)
  subgoal by (rule PushUp_selection_none)
  subgoal by (rule ArmCurl_selection_both)
  subgoal by (rule ArmCurl_selection_right)
  subgoal by (rule ArmCurl_selection_left)
  subgoal by (rule ArmCurl_selection_none)
  subgoal by (rule Squat_selection_both)
  subgoal by (rule Squat_selection_right)
  subgoal by (rule Squat_selection_left)
  subgoal by (rule Squat_selection_none)
  subgoal by (rule PushUp_gate)
  subgoal by (rule ArmCurl_gate)
  subgoal by (rule Squat_gate)
  done

theorem working_angle_selection_witness:
  "11 \<le> length (arms_frame 90 180 1 1)
   \<and> calculate_angle (arms_frame 90 180 1 1 ! 6) (arms_frame 90 180 1 1 ! 8)
        (arms_frame 90 180 1 1 ! 10) = Some 90
   \<and> calculate_angle (arms_frame 90 180 1 1 ! 5) (arms_frame 90 180 1 1 ! 7)
        (arms_frame 90 180 1 1 ! 9) = Some 180
   \<and> MIN_CONFIDENCE PushUpCounter_init \<le> limb_confidence (arms_frame 90 180 1 1) 6 8 10
   \<and> MIN_CONFIDENCE PushUpCounter_init \<le> limb_confidence (arms_frame 90 180 1 1) 5 7 9
   \<and> PushUp_get_best_arm_angle PushUpCounter_init (arms_frame 90 180 1 1) = (Some 135, 1)
   \<and> ArmCurl_get_best_arm_angle (arms_frame 90 180 1 1) = (Some 90, 1, ''Right'')
   \<and> 17 \<le> length (legs_frame 90 120 1 1)
   \<and> get_best_leg_angle (legs_frame 90 120 1 1) = (Some 90, 1)
   \<and> PushUp_get_best_arm_angle PushUpCounter_init (arms_frame 90 90 (1 / 10) (1 / 10)) = (None, 0)
   \<and> PushUp_analyze_pose PushUpCounter_init (Some (arms_frame 90 90 (1 / 10) (1 / 10)))
       = (PushUpCounter_init\<lparr>frame_count := 1\<rparr>, 0, None)"
proof -
  let ?af = "arms_frame 90 180 1 1"
  let ?lf = "legs_frame 90 120 1 1"
  let ?low = "arms_frame 90 90 (1 / 10) (1 / 10)"
  have len: "11 \<le> length ?af" by (simp add: arms_frame_rows)
  have len17: "17 \<le> length ?lf" by (simp add: legs_frame_rows)
  have lenlow: "11 \<le> length ?low" by (simp add: arms_frame_rows)
  have ra: "calculate_angle (?af ! 6) (?af ! 8) (?af ! 10) = Some 90"
    unfolding arms_frame_rows by (rule calculate_angle_elbow_conf) simp_all
  have la: "calculate_angle (?af ! 5) (?af ! 7) (?af ! 9) = Some 180"
    unfolding arms_frame_rows by (rule calculate_angle_elbow_conf) simp_all
  have ara: "ArmCurl_calculate_angle (?af ! 6) (?af ! 8) (?af ! 10) = Some 90"
    unfolding arms_frame_rows by (rule ArmCurl_calculate_angle_elbow) simp_all
  have ala: "ArmCurl_calculate_angle (?af ! 5) (?af ! 7) (?af ! 9) = Some 180"
    unfolding arms_frame_rows by (rule ArmCurl_calculate_angle_elbow) simp_all
  have kra: "calculate_angle (?lf ! 12) (?lf ! 14) (?lf ! 16) = Some 90"
    unfolding legs_frame_rows by (rule calculate_angle_elbow_conf) simp_all
  have kla: "calculate_angle (?lf ! 11) (?lf ! 13) (?lf ! 15) = Some 120"
    unfolding legs_frame_rows by (rule calculate_angle_elbow_conf) simp_all
  have c: "limb_confidence ?af 6 8 10 = 1" "limb_confidence ?af 5 7 9 = 1"
    "limb_confidence ?lf 12 14 16 = 1" "limb_confidence ?lf 11 13 15 = 1"
    "limb_confidence ?low 6 8 10 = 1 / 10" "limb_confidence ?low 5 7 9 = 1 / 10"
    by (simp_all add: limb_confidence_def arms_frame_rows legs_frame_rows jconf_def)
  have m: "MIN_CONFIDENCE PushUpCounter_init = 3 / 10" "count PushUpCounter_init = 0"
    "frame_count PushUpCounter_init = 0"
    by (simp_all add: PushUpCounter_init_def)
  note t1 = working_angle_selection[where ks = ?af and r = 90 and l = 180
      and p = PushUpCounter_init]
  note t2 = working_angle_selection[where ks = ?lf and r = 90 and l = 120]
  note t3 = working_angle_selection[where ks = ?low and p = PushUpCounter_init]
  note b1 = t1[THEN conjunct1, THEN mp, OF len]
  note b2 = t2[THEN conjunct2, THEN conjunct1, THEN mp, OF len17]
  note b3 = t3[THEN conjunct1, THEN mp, OF lenlow]
  have pu: "PushUp_get_best_arm_angle PushUpCounter_init ?af = (Some 135, 1)"
    using b1[THEN conjunct1] ra la by (simp add: c m)
  have ac: "ArmCurl_get_best_arm_angle ?af = (Some 90, 1, ''Right'')"
    using b1[THEN conjunct2, THEN conjunct2, THEN conjunct2, THEN conjunct2, THEN conjunct1] ara ala
    by (simp add: c)
  have sq: "get_best_leg_angle ?lf = (Some 90, 1)"
    using b2[THEN conjunct1] kra kla by (simp add: c)
  have none: "PushUp_get_best_arm_angle PushUpCounter_init ?low = (None, 0)"
    using b3[THEN conjunct2, THEN conjunct2, THEN conjunct2, THEN conjunct1] by (simp add: c m)
  have gate: "PushUp_analyze_pose PushUpCounter_init (Some ?low)
       = (PushUpCounter_init\<lparr>frame_count := 1\<rparr>, 0, None)"
    using t3[THEN conjunct2, THEN conjunct2, THEN conjunct1] by (simp add: none m)
  have mc: "MIN_CONFIDENCE PushUpCounter_init \<le> limb_confidence ?af 6 8 10"
    "MIN_CONFIDENCE PushUpCounter_init \<le> limb_confidence ?af 5 7 9"
    by (simp_all add: c m)
  show ?thesis by (intro conjI len ra la mc pu ac len17 sq none gate)
qed

end
